theory Spec2Isabelle
  imports Complex_Main "HOL-Library.Multiset"
begin

section \<open>Primal/dual linear-programming checker: the embedding\<close>

text \<open>
  The program under study is \<^verbatim>\<open>P3_LEFEBVRE_Romain_Group_B.py\<close>. It reads a linear program
  and a candidate point, checks the point against the constraints, builds the dual problem,
  hands the dual to \<^verbatim>\<open>scipy.optimize.linprog\<close> and compares the two objective values.

  Numbers: the program computes with numpy's double-precision floats. The model has a
  type of doubles with NaN and the two infinities. What IEEE arithmetic computes exactly
  (comparisons, negation, absolute value) is defined; what it rounds (\<^verbatim>\<open>np.dot\<close>, and the
  additions and multiplications inside \<^verbatim>\<open>np.isclose\<close>) is numpy's and the hardware's, not
  the program's, and is a parameter of the model: the theorems hold whatever these
  operations return.

  Exceptions are values: a function that may raise returns \<open>error + 'a\<close>, with \<open>Inl\<close> for
  the exception.
\<close>

subsection \<open>Errors\<close>

datatype value_error =
    Bad_c int             \<comment> \<open>"Objective function coefficients (c) must have ... entries."\<close>
  | Bad_A int             \<comment> \<open>"Constraint coefficients (A) must have ... entries."\<close>
  | Bad_b int             \<comment> \<open>"Constraint RHS values (b) must have ... entries."\<close>
  | Bad_signs int         \<comment> \<open>"Constraint signs must have ... entries."\<close>
  | Bad_possible_sol int  \<comment> \<open>"Possible solution must have ... entries."\<close>
  | Invalid_sign string   \<comment> \<open>"Invalid constraint sign: ..."\<close>
  | Cannot_reshape        \<comment> \<open>numpy: cannot reshape array of this size into that shape\<close>
  | Shapes_not_aligned    \<comment> \<open>numpy: the two arguments of \<open>dot\<close> differ in length\<close>

datatype error =
    ValueError value_error
  | IndexError
  | SolverError  \<comment> \<open>an exception raised inside \<^verbatim>\<open>linprog\<close>, of whatever class\<close>

text \<open>
  Sequencing of calls that may raise: the first exception ends the computation, as it does
  in Python when nothing catches it.
\<close>

fun bind_err :: "error + 'a \<Rightarrow> ('a \<Rightarrow> error + 'b) \<Rightarrow> error + 'b" where
  "bind_err (Inl e) f = Inl e"
| "bind_err (Inr v) f = f v"

subsection \<open>Numbers\<close>

text \<open>
  A double is a finite number, an infinity or NaN. Every real stands for a finite value,
  so the type has more finite values than there are doubles; nothing below depends on
  which of them a machine can represent. The two zeros of IEEE arithmetic are one value
  here: they compare equal, and the program tells them apart only in what it prints.
\<close>

datatype double = Fin real | PInf | NInf | NaN

fun is_nan :: "double \<Rightarrow> bool" where
  "is_nan NaN = True"
| "is_nan _ = False"

fun is_finite :: "double \<Rightarrow> bool" where
  "is_finite (Fin _) = True"
| "is_finite _ = False"

text \<open>Unary minus and absolute value are exact.\<close>

fun fneg :: "double \<Rightarrow> double" where
  "fneg (Fin a) = Fin (- a)"
| "fneg PInf = NInf"
| "fneg NInf = PInf"
| "fneg NaN = NaN"

fun fabs :: "double \<Rightarrow> double" where
  "fabs (Fin a) = Fin \<bar>a\<bar>"
| "fabs PInf = PInf"
| "fabs NInf = PInf"
| "fabs NaN = NaN"

text \<open>The comparisons of IEEE arithmetic: every comparison with NaN is false.\<close>

fun flt :: "double \<Rightarrow> double \<Rightarrow> bool" where
  "flt NaN _ = False"
| "flt _ NaN = False"
| "flt (Fin a) (Fin b) = (a < b)"
| "flt (Fin a) PInf = True"
| "flt (Fin a) NInf = False"
| "flt PInf _ = False"
| "flt NInf (Fin b) = True"
| "flt NInf PInf = True"
| "flt NInf NInf = False"

fun feq :: "double \<Rightarrow> double \<Rightarrow> bool" where
  "feq (Fin a) (Fin b) = (a = b)"
| "feq PInf PInf = True"
| "feq NInf NInf = True"
| "feq _ _ = False"

definition fgt :: "double \<Rightarrow> double \<Rightarrow> bool" where
  "fgt a b = flt b a"

definition fle :: "double \<Rightarrow> double \<Rightarrow> bool" where
  "fle a b = (flt a b \<or> feq a b)"

definition fge :: "double \<Rightarrow> double \<Rightarrow> bool" where
  "fge a b = fle b a"

text \<open>
  The operations that round. \<open>dot64\<close> is \<^verbatim>\<open>np.dot\<close> on two one-dimensional arrays of the
  same length; \<open>add64\<close>, \<open>sub64\<close> and \<open>mul64\<close> are the arithmetic of doubles; \<open>rtol\<close> and
  \<open>atol\<close> are the doubles that Python reads \<^verbatim>\<open>1e-05\<close> and \<^verbatim>\<open>1e-08\<close> as.
\<close>

record numpy =
  dot64 :: "double list \<Rightarrow> double list \<Rightarrow> double"
  add64 :: "double \<Rightarrow> double \<Rightarrow> double"
  sub64 :: "double \<Rightarrow> double \<Rightarrow> double"
  mul64 :: "double \<Rightarrow> double \<Rightarrow> double"
  rtol :: double
  atol :: double

subsection \<open>Arrays\<close>

text \<open>
  A one-dimensional numpy array is a list of doubles. A two-dimensional array carries its
  shape and its rows; \<open>wf_array\<close> says that the rows agree with the shape, which numpy
  guarantees of every array it builds.
\<close>

record ndarray2 =
  nrows :: nat
  ncols :: nat
  rowsof :: "double list list"

definition wf_array :: "ndarray2 \<Rightarrow> bool" where
  "wf_array A = (length (rowsof A) = nrows A \<and> list_all (\<lambda>r. length r = ncols A) (rowsof A))"

text \<open>\<^verbatim>\<open>A[i]\<close> for \<open>0 \<le> i\<close>: the row, or IndexError beyond the last row.\<close>

definition np_row :: "ndarray2 \<Rightarrow> nat \<Rightarrow> error + double list" where
  "np_row A i = (if i < nrows A then Inr (rowsof A ! i) else Inl IndexError)"

text \<open>\<^verbatim>\<open>b[i]\<close> for \<open>0 \<le> i\<close> on a one-dimensional array or a Python list.\<close>

definition np_get :: "'a list \<Rightarrow> nat \<Rightarrow> error + 'a" where
  "np_get b i = (if i < length b then Inr (b ! i) else Inl IndexError)"

text \<open>
  \<^verbatim>\<open>np.dot\<close> on two one-dimensional arrays: ValueError when the lengths differ, numpy's
  result otherwise.
\<close>

definition np_dot :: "numpy \<Rightarrow> double list \<Rightarrow> double list \<Rightarrow> error + double" where
  "np_dot np xs ys =
     (if length xs = length ys then Inr (dot64 np xs ys) else Inl (ValueError Shapes_not_aligned))"

text \<open>\<^verbatim>\<open>A.T\<close>: row \<open>j\<close> of the transpose is column \<open>j\<close> of \<open>A\<close>.\<close>

definition np_T :: "ndarray2 \<Rightarrow> ndarray2" where
  "np_T A = \<lparr>nrows = ncols A, ncols = nrows A,
            rowsof = map (\<lambda>j. map (\<lambda>r. r ! j) (rowsof A)) [0..<ncols A]\<rparr>"

text \<open>Unary minus on arrays is elementwise.\<close>

definition np_neg :: "double list \<Rightarrow> double list" where
  "np_neg v = map fneg v"

definition np_neg2 :: "ndarray2 \<Rightarrow> ndarray2" where
  "np_neg2 A = A\<lparr>rowsof := map np_neg (rowsof A)\<rparr>"

text \<open>
  \<^verbatim>\<open>np.isclose(a, b)\<close> with its default tolerances, as numpy documents it: for two finite
  values \<^verbatim>\<open>abs(a - b) <= atol + rtol * abs(b)\<close>, evaluated in double arithmetic; otherwise
  \<^verbatim>\<open>a == b\<close>, so two equal infinities are close and NaN is close to nothing.
\<close>

definition difference :: "numpy \<Rightarrow> double \<Rightarrow> double \<Rightarrow> double" where
  "difference np a b = fabs (sub64 np a b)"

definition tolerance :: "numpy \<Rightarrow> double \<Rightarrow> double" where
  "tolerance np b = add64 np (atol np) (mul64 np (rtol np) (fabs b))"

definition np_isclose :: "numpy \<Rightarrow> double \<Rightarrow> double \<Rightarrow> bool" where
  "np_isclose np a b =
     (if is_finite a \<and> is_finite b then fle (difference np a b) (tolerance np b) else feq a b)"

subsection \<open>The command line\<close>

text \<open>
  The namespace that \<^verbatim>\<open>parse_arguments\<close> returns. The two dimensions are Python
  integers, so they may be negative; the numbers are what \<^verbatim>\<open>float\<close> reads, so they may be
  NaN or infinite.
\<close>

record args =
  num_vars :: int
  num_constraints :: int
  arg_c :: "double list"
  arg_A :: "double list"
  arg_b :: "double list"
  constraint_signs :: "string list"
  possible_sol :: "double list"
  arg_type :: string

definition validate_inputs :: "args \<Rightarrow> error + unit" where
  "validate_inputs a =
     (if int (length (arg_c a)) \<noteq> num_vars a then
        Inl (ValueError (Bad_c (num_vars a)))
      else if int (length (arg_A a)) \<noteq> num_constraints a * num_vars a then
        Inl (ValueError (Bad_A (num_constraints a * num_vars a)))
      else if int (length (arg_b a)) \<noteq> num_constraints a then
        Inl (ValueError (Bad_b (num_constraints a)))
      else if int (length (constraint_signs a)) \<noteq> num_constraints a then
        Inl (ValueError (Bad_signs (num_constraints a)))
      else if int (length (possible_sol a)) \<noteq> num_vars a then
        Inl (ValueError (Bad_possible_sol (num_vars a)))
      else Inr ())"

text \<open>
  \<^verbatim>\<open>np.array(A).reshape(num_constraints, num_vars)\<close>. The dimensions are naturals here:
  \<open>main\<close> reaches this call only after \<open>validate_inputs\<close>, which lets no negative
  dimension through (lemma \<open>validate_inputs_nonneg\<close>), so numpy's \<open>-1\<close> placeholder
  cannot occur.
\<close>

definition reshape_constraints :: "double list \<Rightarrow> nat \<Rightarrow> nat \<Rightarrow> error + ndarray2" where
  "reshape_constraints A m n =
     (if length A = m * n then
        Inr \<lparr>nrows = m, ncols = n, rowsof = map (\<lambda>i. take n (drop (i * n) A)) [0..<m]\<rparr>
      else Inl (ValueError Cannot_reshape))"

subsection \<open>The dual transform\<close>

text \<open>The loop over the constraint signs; \<open>acc\<close> is the list \<^verbatim>\<open>dual_signs\<close> built so far.\<close>

fun dual_signs_loop :: "string list \<Rightarrow> string list \<Rightarrow> error + string list" where
  "dual_signs_loop acc [] = Inr acc"
| "dual_signs_loop acc (sign # rest) =
     (if sign = ''<='' then dual_signs_loop (acc @ [''>='']) rest
      else if sign = ''>='' then dual_signs_loop (acc @ [''<='']) rest
      else if sign = ''='' then dual_signs_loop (acc @ [''='']) rest
      else Inl (ValueError (Invalid_sign sign)))"

text \<open>
  The result is the tuple \<^verbatim>\<open>(dual_c, dual_A, dual_b, dual_signs)\<close>, where the source sets
  \<^verbatim>\<open>dual_b = c\<close>, \<^verbatim>\<open>dual_A = A.T\<close> and \<^verbatim>\<open>dual_c = b\<close>.
\<close>

definition transpose_to_dual ::
  "double list \<Rightarrow> ndarray2 \<Rightarrow> double list \<Rightarrow> string list \<Rightarrow> string
     \<Rightarrow> error + (double list \<times> ndarray2 \<times> double list \<times> string list)" where
  "transpose_to_dual c A b signs problem_type =
     (let dual_b = c; dual_A = np_T A; dual_c = b in
      bind_err (dual_signs_loop [] signs) (\<lambda>dual_signs.
      Inr (dual_c, dual_A, dual_b, dual_signs)))"

subsection \<open>The feasibility check\<close>

text \<open>
  \<^verbatim>\<open>sign == s and cmp(lhs, b[i])\<close>: Python's \<open>and\<close> reads \<^verbatim>\<open>b[i]\<close> only when the sign
  matches, so only then can the index be out of range.
\<close>

definition sign_and :: "bool \<Rightarrow> (double \<Rightarrow> bool) \<Rightarrow> double list \<Rightarrow> nat \<Rightarrow> error + bool" where
  "sign_and matches cmp b i =
     (if matches then bind_err (np_get b i) (\<lambda>bi. Inr (cmp bi)) else Inr False)"

text \<open>The loop of \<^verbatim>\<open>verify_feasibility\<close>; \<open>i\<close> is the counter of \<^verbatim>\<open>enumerate\<close>.\<close>

fun verify_loop ::
  "numpy \<Rightarrow> ndarray2 \<Rightarrow> double list \<Rightarrow> double list \<Rightarrow> nat \<Rightarrow> string list \<Rightarrow> error + bool" where
  "verify_loop np A b sol i [] = Inr True"
| "verify_loop np A b sol i (sign # rest) =
     bind_err (np_row A i) (\<lambda>row.
     bind_err (np_dot np row sol) (\<lambda>lhs.
     bind_err (sign_and (sign = ''<='') (\<lambda>bi. fgt lhs bi) b i) (\<lambda>v1.
     if v1 then Inr False else
     bind_err (sign_and (sign = ''>='') (\<lambda>bi. flt lhs bi) b i) (\<lambda>v2.
     if v2 then Inr False else
     bind_err (sign_and (sign = ''='') (\<lambda>bi. \<not> np_isclose np lhs bi) b i) (\<lambda>v3.
     if v3 then Inr False else
     verify_loop np A b sol (Suc i) rest)))))"

definition verify_feasibility ::
  "numpy \<Rightarrow> ndarray2 \<Rightarrow> double list \<Rightarrow> string list \<Rightarrow> double list \<Rightarrow> error + bool" where
  "verify_feasibility np A b signs sol = verify_loop np A b sol 0 signs"

subsection \<open>The optimality check\<close>

definition check_optimality ::
  "numpy \<Rightarrow> double list \<Rightarrow> double list \<Rightarrow> double list \<Rightarrow> double list
     \<Rightarrow> error + (bool \<times> double \<times> double)" where
  "check_optimality np primal_sol dual_sol c b =
     bind_err (np_dot np c primal_sol) (\<lambda>primal_obj_value.
     bind_err (np_dot np b dual_sol) (\<lambda>dual_obj_value.
     Inr (np_isclose np primal_obj_value dual_obj_value, primal_obj_value, dual_obj_value)))"

subsection \<open>Output and calls\<close>

text \<open>
  What a run does besides computing: the lines it prints, the pipeline functions that
  \<open>main\<close> calls, and the call of the external solver with its arguments. A run is the list
  of these events in order, together with its result or the exception that ended it.
\<close>

datatype message =
    Problem_Title bool                   \<comment> \<open>"Primal Problem:" (True) or "Dual Problem:"\<close>
  | Problem_Row "double list" string double \<comment> \<open>one constraint: coefficients, sign, right-hand side\<close>
  | Problem_Objective bool "double list" \<comment> \<open>"Objective: Maximize ..." (True) or "Minimize ..."\<close>
  | Solution_Feasible "double list"      \<comment> \<open>"The given solution ... is feasible for the primal problem."\<close>
  | Solution_Infeasible "double list"    \<comment> \<open>"The given solution ... is not feasible for the primal problem."\<close>
  | Dual_Not_Solved                      \<comment> \<open>"Dual problem could not be solved."\<close>
  | Dual_Solution "double list"          \<comment> \<open>"Dual solution: ..."\<close>
  | Optimal double                       \<comment> \<open>"The primal and dual solutions found are optimal ..."\<close>
  | Not_Optimal double double            \<comment> \<open>"The primal and dual solutions are not optimal. ..."\<close>

datatype stage =
    Validate_Inputs | Reshape_Constraints | Print_Problem | Verify_Feasibility
  | Transpose_To_Dual | Solve_Dual | Check_Optimality

datatype event =
    Call stage
  | Linprog "double list" ndarray2 "double list" \<comment> \<open>\<^verbatim>\<open>linprog(c, A_ub=..., b_ub=..., method='highs')\<close>\<close>
  | Print message

type_synonym 'a io = "event list \<times> (error + 'a)"

definition ret :: "'a \<Rightarrow> 'a io" where
  "ret v = ([], Inr v)"

definition emit :: "event \<Rightarrow> unit io" where
  "emit e = ([e], Inr ())"

definition lift :: "error + 'a \<Rightarrow> 'a io" where
  "lift r = ([], r)"

definition call :: "stage \<Rightarrow> 'a io \<Rightarrow> 'a io" where
  "call s m = (Call s # fst m, snd m)"

fun bind_io :: "'a io \<Rightarrow> ('a \<Rightarrow> 'b io) \<Rightarrow> 'b io" where
  "bind_io (out, Inl e) f = (out, Inl e)"
| "bind_io (out, Inr v) f = (out @ fst (f v), snd (f v))"

subsection \<open>Printing a problem\<close>

text \<open>
  The loop \<^verbatim>\<open>for i in range(len(b))\<close> of \<^verbatim>\<open>print_problem\<close>. It reads \<^verbatim>\<open>A[i]\<close> and
  \<^verbatim>\<open>constraint_signs[i]\<close>, and either may be out of range; \<^verbatim>\<open>b[i]\<close> cannot.
\<close>

fun print_rows :: "ndarray2 \<Rightarrow> double list \<Rightarrow> string list \<Rightarrow> nat list \<Rightarrow> unit io" where
  "print_rows A b signs [] = ret ()"
| "print_rows A b signs (i # rest) =
     bind_io (lift (np_row A i)) (\<lambda>row.
     bind_io (lift (np_get signs i)) (\<lambda>sign.
     bind_io (emit (Print (Problem_Row row sign (b ! i)))) (\<lambda>_.
     print_rows A b signs rest)))"

definition print_problem ::
  "double list \<Rightarrow> ndarray2 \<Rightarrow> double list \<Rightarrow> string list \<Rightarrow> bool \<Rightarrow> unit io" where
  "print_problem c A b signs is_primal =
     bind_io (emit (Print (Problem_Title is_primal))) (\<lambda>_.
     bind_io (print_rows A b signs [0..<length b]) (\<lambda>_.
     emit (Print (Problem_Objective is_primal c))))"

subsection \<open>The solver call\<close>

text \<open>
  \<^verbatim>\<open>scipy.optimize.linprog\<close> is not part of the program: it is a parameter of the model,
  a function of the objective, the upper-bound matrix \<^verbatim>\<open>A_ub\<close> and the upper-bound vector
  \<^verbatim>\<open>b_ub\<close>. It returns a result, of which the program reads \<^verbatim>\<open>res.success\<close> and
  \<^verbatim>\<open>res.x\<close>, or raises, as scipy does on input that holds NaN; the program catches
  nothing. The call names no bounds, so the solver's own default for them applies; that is
  part of \<open>linprog\<close>, not of the call.
\<close>

record optimize_result =
  res_success :: bool
  res_x :: "double list"

type_synonym solver = "double list \<Rightarrow> ndarray2 \<Rightarrow> double list \<Rightarrow> error + optimize_result"

definition solve_dual ::
  "solver \<Rightarrow> ndarray2 \<Rightarrow> double list \<Rightarrow> double list \<Rightarrow> (double list option) io" where
  "solve_dual linprog A_T b c =
     (let A_ub = np_neg2 A_T; b_ub = np_neg b in
      bind_io (emit (Linprog c A_ub b_ub)) (\<lambda>_.
      bind_io (lift (linprog c A_ub b_ub)) (\<lambda>res.
      if res_success res then ret (Some (res_x res))
      else bind_io (emit (Print Dual_Not_Solved)) (\<lambda>_. ret None))))"

subsection \<open>The pipeline\<close>

text \<open>
  \<open>main\<close> is given in three pieces, from the inside out: the body of
  \<^verbatim>\<open>if dual_solution is not None\<close>, the body of \<^verbatim>\<open>if verify_feasibility(...)\<close>, and
  the function itself.
\<close>

definition report_optimality ::
  "numpy \<Rightarrow> double list \<Rightarrow> double list \<Rightarrow> double list \<Rightarrow> double list \<Rightarrow> unit io" where
  "report_optimality np sol dual_solution c_vector b_vector =
     bind_io (emit (Print (Dual_Solution dual_solution))) (\<lambda>_.
     bind_io (call Check_Optimality (lift
       (check_optimality np sol dual_solution c_vector b_vector)))
       (\<lambda>(is_optimal, primal_obj_value, dual_obj_value).
     if is_optimal then emit (Print (Optimal primal_obj_value))
     else emit (Print (Not_Optimal primal_obj_value dual_obj_value))))"

definition dual_stage ::
  "numpy \<Rightarrow> solver \<Rightarrow> double list \<Rightarrow> ndarray2 \<Rightarrow> double list \<Rightarrow> string list \<Rightarrow> string
     \<Rightarrow> double list \<Rightarrow> unit io" where
  "dual_stage np linprog c_vector A_matrix b_vector signs problem_type sol =
     bind_io (emit (Print (Solution_Feasible sol))) (\<lambda>_.
     bind_io (call Transpose_To_Dual (lift
       (transpose_to_dual c_vector A_matrix b_vector signs problem_type)))
       (\<lambda>(dual_c, dual_A, dual_b, dual_signs).
     bind_io (call Print_Problem (print_problem dual_c dual_A dual_b dual_signs False)) (\<lambda>_.
     bind_io (call Solve_Dual (solve_dual linprog dual_A dual_b dual_c)) (\<lambda>dual_solution.
     case dual_solution of
       None \<Rightarrow> ret ()
     | Some dual_sol \<Rightarrow> report_optimality np sol dual_sol c_vector b_vector))))"

definition main :: "numpy \<Rightarrow> solver \<Rightarrow> args \<Rightarrow> unit io" where
  "main np linprog a =
     bind_io (call Validate_Inputs (lift (validate_inputs a))) (\<lambda>_.
     bind_io (call Reshape_Constraints (lift
       (reshape_constraints (arg_A a) (nat (num_constraints a)) (nat (num_vars a))))) (\<lambda>A_matrix.
     let b_vector = arg_b a; c_vector = arg_c a; sol = possible_sol a in
     bind_io (call Print_Problem
       (print_problem c_vector A_matrix b_vector (constraint_signs a) True)) (\<lambda>_.
     bind_io (call Verify_Feasibility (lift
       (verify_feasibility np A_matrix b_vector (constraint_signs a) sol))) (\<lambda>feasible.
     if feasible then
       dual_stage np linprog c_vector A_matrix b_vector (constraint_signs a) (arg_type a) sol
     else emit (Print (Solution_Infeasible sol))))))"

section \<open>Notions of the specification\<close>

text \<open>
  The definitions of this section follow the words of the specification, not the code:
  the theorems below compare the code with them.
\<close>

text \<open>The three relation symbols.\<close>

definition valid_signs :: "string set" where
  "valid_signs = {''<='', ''='', ''>=''}"

text \<open>The sign flip of the dual transform; other symbols have no flip.\<close>

definition flip :: "string \<Rightarrow> string option" where
  "flip r = (if r = ''<='' then Some ''>='' else if r = ''>='' then Some ''<=''
             else if r = ''='' then Some ''='' else None)"

text \<open>The invariant of a linear program: \<open>M\<close> rows over \<open>N\<close> variables.\<close>

definition wf_lp :: "double list \<Rightarrow> ndarray2 \<Rightarrow> double list \<Rightarrow> string list \<Rightarrow> bool" where
  "wf_lp c A b signs =
     (wf_array A \<and> length c = ncols A \<and> length b = nrows A \<and> length signs = nrows A)"

text \<open>Matching dimensions for the feasibility check.\<close>

definition dims_match :: "ndarray2 \<Rightarrow> double list \<Rightarrow> string list \<Rightarrow> double list \<Rightarrow> bool" where
  "dims_match A b signs sol =
     (wf_array A \<and> length b = nrows A \<and> length signs = nrows A \<and> length sol = ncols A)"

text \<open>
  Whether a left-hand side stands in the relation to a right-hand side: \<open>\<le>\<close> and \<open>\<ge>\<close> as
  doubles compare, \<open>=\<close> as closeness. An unrecognised symbol has no answer.
\<close>

definition relation_holds :: "numpy \<Rightarrow> string \<Rightarrow> double \<Rightarrow> double \<Rightarrow> bool option" where
  "relation_holds np r lhs rhs =
     (if r = ''<='' then Some (fle lhs rhs)
      else if r = ''>='' then Some (fge lhs rhs)
      else if r = ''='' then Some (np_isclose np lhs rhs)
      else None)"

text \<open>The left-hand side of row \<open>i\<close>: the dot product of the row and the point.\<close>

definition lhs_of :: "numpy \<Rightarrow> ndarray2 \<Rightarrow> double list \<Rightarrow> nat \<Rightarrow> double" where
  "lhs_of np A sol i = dot64 np (rowsof A ! i) sol"

definition row_holds ::
  "numpy \<Rightarrow> ndarray2 \<Rightarrow> double list \<Rightarrow> string list \<Rightarrow> double list \<Rightarrow> nat \<Rightarrow> bool option" where
  "row_holds np A b signs sol i = relation_holds np (signs ! i) (lhs_of np A sol i) (b ! i)"

text \<open>Reordering: position \<open>k\<close> of the result holds entry \<open>p ! k\<close> of the original.\<close>

definition permute :: "nat list \<Rightarrow> 'a list \<Rightarrow> 'a list" where
  "permute p xs = map (\<lambda>i. xs ! i) p"

definition permute_rows :: "nat list \<Rightarrow> ndarray2 \<Rightarrow> ndarray2" where
  "permute_rows p A = A\<lparr>rowsof := permute p (rowsof A)\<rparr>"

text \<open>
  Arithmetic without rounding, for reading a constraint system as mathematics: sums and
  products of finite values are exact, and NaN and the infinities follow the IEEE rules.
\<close>

fun xadd :: "double \<Rightarrow> double \<Rightarrow> double" where
  "xadd NaN _ = NaN"
| "xadd _ NaN = NaN"
| "xadd (Fin a) (Fin b) = Fin (a + b)"
| "xadd PInf NInf = NaN"
| "xadd NInf PInf = NaN"
| "xadd PInf _ = PInf"
| "xadd _ PInf = PInf"
| "xadd NInf _ = NInf"
| "xadd _ NInf = NInf"

fun xmul :: "double \<Rightarrow> double \<Rightarrow> double" where
  "xmul NaN _ = NaN"
| "xmul _ NaN = NaN"
| "xmul (Fin a) (Fin b) = Fin (a * b)"
| "xmul (Fin a) i = (if a = 0 then NaN else if 0 < a then i else fneg i)"
| "xmul i (Fin b) = (if b = 0 then NaN else if 0 < b then i else fneg i)"
| "xmul i j = (if i = j then PInf else NInf)"

definition xsub :: "double \<Rightarrow> double \<Rightarrow> double" where
  "xsub a b = xadd a (fneg b)"

definition xdot :: "double list \<Rightarrow> double list \<Rightarrow> double" where
  "xdot xs ys = foldr xadd (map2 xmul xs ys) (Fin 0)"

text \<open>
  The two readings of a constraint system: \<open>A_ub x \<le> b_ub\<close>, which is what \<^verbatim>\<open>linprog\<close>
  takes its arguments \<^verbatim>\<open>A_ub\<close> and \<^verbatim>\<open>b_ub\<close> to mean, and \<open>A x \<ge> b\<close>.
\<close>

definition satisfies_ub :: "ndarray2 \<Rightarrow> double list \<Rightarrow> double list \<Rightarrow> bool" where
  "satisfies_ub A_ub b_ub x =
     list_all (\<lambda>i. fle (xdot (rowsof A_ub ! i) x) (b_ub ! i)) [0..<nrows A_ub]"

definition satisfies_ge :: "ndarray2 \<Rightarrow> double list \<Rightarrow> double list \<Rightarrow> bool" where
  "satisfies_ge A b x = list_all (\<lambda>i. fge (xdot (rowsof A ! i) x) (b ! i)) [0..<nrows A]"

section \<open>Auxiliary notions\<close>

text \<open>Notions read off the code, used to state and prove the properties, and example data.\<close>

subsection \<open>What one pass of the feasibility loop decides\<close>

text \<open>
  A row passes when none of the three tests of the loop body fires: a \<open>\<le>\<close> row unless
  its left-hand side is greater than the right-hand side, a \<open>\<ge>\<close> row unless it is less,
  an \<open>=\<close> row unless the two are not close. A row with any other symbol always passes.
\<close>

definition row_passes :: "numpy \<Rightarrow> string \<Rightarrow> double \<Rightarrow> double \<Rightarrow> bool" where
  "row_passes np sign lhs rhs =
     (\<not> (sign = ''<='' \<and> fgt lhs rhs) \<and> \<not> (sign = ''>='' \<and> flt lhs rhs) \<and>
      \<not> (sign = ''='' \<and> \<not> np_isclose np lhs rhs))"

definition passes_at ::
  "numpy \<Rightarrow> ndarray2 \<Rightarrow> double list \<Rightarrow> string list \<Rightarrow> double list \<Rightarrow> nat \<Rightarrow> bool" where
  "passes_at np A b signs sol i = row_passes np (signs ! i) (lhs_of np A sol i) (b ! i)"

text \<open>The conjunction over all rows, every row evaluated.\<close>

definition all_rows ::
  "numpy \<Rightarrow> ndarray2 \<Rightarrow> double list \<Rightarrow> string list \<Rightarrow> double list \<Rightarrow> bool" where
  "all_rows np A b signs sol =
     foldr (\<and>) (map (passes_at np A b signs sol) [0..<length signs]) True"

text \<open>
  The rows on which passing and standing in the relation can be compared: the symbol is
  \<open>=\<close>, or neither side is NaN.
\<close>

definition comparable_at ::
  "numpy \<Rightarrow> ndarray2 \<Rightarrow> double list \<Rightarrow> string list \<Rightarrow> double list \<Rightarrow> nat \<Rightarrow> bool" where
  "comparable_at np A b signs sol i =
     (signs ! i = ''='' \<or> (\<not> is_nan (lhs_of np A sol i) \<and> \<not> is_nan (b ! i)))"

subsection \<open>Reading a run\<close>

fun is_problem_line :: "event \<Rightarrow> bool" where
  "is_problem_line (Print (Problem_Title _)) = True"
| "is_problem_line (Print (Problem_Row _ _ _)) = True"
| "is_problem_line (Print (Problem_Objective _ _)) = True"
| "is_problem_line _ = False"

fun is_linprog :: "event \<Rightarrow> bool" where
  "is_linprog (Linprog _ _ _) = True"
| "is_linprog _ = False"

fun is_report :: "event \<Rightarrow> bool" where
  "is_report (Print (Optimal _)) = True"
| "is_report (Print (Not_Optimal _ _)) = True"
| "is_report _ = False"

definition performed :: "stage \<Rightarrow> unit io \<Rightarrow> bool" where
  "performed s run = (Call s \<in> set (fst run))"

definition printed :: "message \<Rightarrow> unit io \<Rightarrow> bool" where
  "printed m run = (Print m \<in> set (fst run))"

definition solver_called :: "unit io \<Rightarrow> bool" where
  "solver_called run = list_ex is_linprog (fst run)"

definition reported :: "unit io \<Rightarrow> bool" where
  "reported run = list_ex is_report (fst run)"

text \<open>
  The part of a run up to and including the call of the feasibility check, for arguments
  that pass validation.
\<close>

definition primal_prefix :: "args \<Rightarrow> ndarray2 \<Rightarrow> event list" where
  "primal_prefix a A_matrix =
     Call Validate_Inputs # Call Reshape_Constraints # Call Print_Problem #
     fst (print_problem (arg_c a) A_matrix (arg_b a) (constraint_signs a) True) @
     [Call Verify_Feasibility]"

text \<open>The exceptions of \<open>validate_inputs\<close>.\<close>

fun is_shape_error :: "value_error \<Rightarrow> bool" where
  "is_shape_error (Bad_c _) = True"
| "is_shape_error (Bad_A _) = True"
| "is_shape_error (Bad_b _) = True"
| "is_shape_error (Bad_signs _) = True"
| "is_shape_error (Bad_possible_sol _) = True"
| "is_shape_error _ = False"

subsection \<open>Example data\<close>

text \<open>
  A numpy that does not round. On the examples below every dot product is a small
  integer, NaN or an infinity, which IEEE arithmetic computes exactly, and no closeness
  test is anywhere near its boundary, so numpy returns the same values and verdicts there.
\<close>

definition exact_numpy :: numpy where
  "exact_numpy = \<lparr>dot64 = xdot, add64 = xadd, sub64 = xsub, mul64 = xmul,
                  rtol = Fin (1 / 100000), atol = Fin (1 / 100000000)\<rparr>"

text \<open>
  The scenario of the specification: maximise \<open>3 x\<^sub>1 + 5 x\<^sub>2\<close> subject to \<open>x\<^sub>1 \<le> 4\<close>,
  \<open>2 x\<^sub>2 \<le> 12\<close> and \<open>3 x\<^sub>1 + 2 x\<^sub>2 \<le> 18\<close>, with the candidate point \<open>(2, 6)\<close>.
\<close>

definition ex_c :: "double list" where
  "ex_c = map Fin [3, 5]"

definition ex_A :: ndarray2 where
  "ex_A = \<lparr>nrows = 3, ncols = 2, rowsof = map (map Fin) [[1, 0], [0, 2], [3, 2]]\<rparr>"

definition ex_b :: "double list" where
  "ex_b = map Fin [4, 12, 18]"

definition ex_signs :: "string list" where
  "ex_signs = [''<='', ''<='', ''<='']"

definition ex_sol :: "double list" where
  "ex_sol = map Fin [2, 6]"

text \<open>The same constraints read as \<open>x\<^sub>1 \<le> 4\<close>, \<open>2 x\<^sub>2 = 12\<close> and \<open>3 x\<^sub>1 + 2 x\<^sub>2 \<ge> 18\<close>.\<close>

definition mixed_signs :: "string list" where
  "mixed_signs = [''<='', ''='', ''>='']"

text \<open>
  A solver that always reports success with the point \<open>(0, 3/2, 1)\<close>, the optimum of the
  dual of the scenario, one that always reports failure, and one that always raises.
\<close>

definition ex_linprog :: solver where
  "ex_linprog c A_ub b_ub = Inr \<lparr>res_success = True, res_x = map Fin [0, 3 / 2, 1]\<rparr>"

definition failing_linprog :: solver where
  "failing_linprog c A_ub b_ub = Inr \<lparr>res_success = False, res_x = []\<rparr>"

definition raising_linprog :: solver where
  "raising_linprog c A_ub b_ub = Inl SolverError"

text \<open>What \<open>solve_dual\<close> passes to the solver on the dual of the scenario.\<close>

definition ex_A_ub :: ndarray2 where
  "ex_A_ub = \<lparr>nrows = 2, ncols = 3,
              rowsof = map (map Fin) [[- 1, 0, - 3], [0, - 2, - 2]]\<rparr>"

definition ex_b_ub :: "double list" where
  "ex_b_ub = map Fin [- 3, - 5]"

text \<open>The smallest problem: one constraint on one variable, with coefficient \<open>1\<close>.\<close>

definition one_A :: ndarray2 where
  "one_A = \<lparr>nrows = 1, ncols = 1, rowsof = [[Fin 1]]\<rparr>"

text \<open>The command line of the scenario, and variants of it.\<close>

definition ex_args :: args where
  "ex_args = \<lparr>num_vars = 2, num_constraints = 3, arg_c = map Fin [3, 5],
              arg_A = map Fin [1, 0, 0, 2, 3, 2], arg_b = map Fin [4, 12, 18],
              constraint_signs = [''<='', ''<='', ''<=''],
              possible_sol = map Fin [2, 6], arg_type = ''max''\<rparr>"

definition ex_args_infeasible :: args where
  "ex_args_infeasible = ex_args\<lparr>possible_sol := map Fin [5, 5]\<rparr>"

definition ex_args_bad_sign :: args where
  "ex_args_bad_sign = ex_args\<lparr>constraint_signs := [''<='', ''!='', ''<='']\<rparr>"

definition ex_args_wide :: args where
  "ex_args_wide = \<lparr>num_vars = 2, num_constraints = 1, arg_c = map Fin [1, 1],
                   arg_A = map Fin [1, 1], arg_b = [Fin 1], constraint_signs = [''<=''],
                   possible_sol = map Fin [0, 0], arg_type = ''max''\<rparr>"

section \<open>Properties\<close>

subsection \<open>Numbers\<close>

text \<open>Unless a side is NaN, "not greater" is "less or equal" and "not less" is "greater or equal".\<close>

lemma not_fgt_iff: "\<not> is_nan a \<Longrightarrow> \<not> is_nan b \<Longrightarrow> (\<not> fgt a b) = fle a b"
  by (cases a; cases b) (auto simp: fgt_def fle_def)

lemma not_flt_iff: "\<not> is_nan a \<Longrightarrow> \<not> is_nan b \<Longrightarrow> (\<not> flt a b) = fge a b"
  by (cases a; cases b) (auto simp: fge_def fle_def)

lemma not_fle_iff: "\<not> is_nan a \<Longrightarrow> \<not> is_nan b \<Longrightarrow> (\<not> fle a b) = fgt a b"
  by (cases a; cases b) (auto simp: fgt_def fle_def)

text \<open>Negation commutes with exact arithmetic and turns \<open>\<le>\<close> into \<open>\<ge>\<close>.\<close>

lemma xadd_fneg: "xadd (fneg a) (fneg b) = fneg (xadd a b)"
  by (cases a; cases b) simp_all

lemma xmul_fneg: "xmul (fneg a) b = fneg (xmul a b)"
  by (cases a; cases b) auto

lemma fle_fneg: "fle (fneg a) (fneg b) = fge a b"
  by (cases a; cases b) (auto simp: fge_def fle_def)

lemma xdot_neg: "xdot (np_neg r) x = fneg (xdot r x)"
  by (induction r x rule: list_induct2') (simp_all add: xdot_def np_neg_def xadd_fneg xmul_fneg)

subsection \<open>Arrays\<close>

lemma wf_array_row: "wf_array A \<Longrightarrow> i < nrows A \<Longrightarrow> length (rowsof A ! i) = ncols A"
  by (simp add: wf_array_def list_all_length)

lemma np_T_shape: "nrows (np_T A) = ncols A" "ncols (np_T A) = nrows A"
  by (simp_all add: np_T_def)

lemma np_T_wf: "wf_array A \<Longrightarrow> wf_array (np_T A)"
  by (simp add: wf_array_def np_T_def list_all_iff)

lemma np_T_entry:
  "wf_array A \<Longrightarrow> i < ncols A \<Longrightarrow> j < nrows A \<Longrightarrow> rowsof (np_T A) ! i ! j = rowsof A ! j ! i"
  by (simp add: wf_array_def np_T_def)

lemma np_neg2_shape: "nrows (np_neg2 A) = nrows A" "ncols (np_neg2 A) = ncols A"
  by (simp_all add: np_neg2_def)

lemma np_neg2_row: "wf_array A \<Longrightarrow> i < nrows A \<Longrightarrow> rowsof (np_neg2 A) ! i = np_neg (rowsof A ! i)"
  by (simp add: np_neg2_def wf_array_def)

lemma ex_A_wf: "wf_array ex_A"
  by (simp add: wf_array_def ex_A_def)

subsection \<open>Validation and reshaping\<close>

lemma validate_inputs_Inr:
  "validate_inputs a = Inr u \<longleftrightarrow>
     int (length (arg_c a)) = num_vars a \<and>
     int (length (arg_A a)) = num_constraints a * num_vars a \<and>
     int (length (arg_b a)) = num_constraints a \<and>
     int (length (constraint_signs a)) = num_constraints a \<and>
     int (length (possible_sol a)) = num_vars a"
  by (simp add: validate_inputs_def)

lemma validate_inputs_nonneg:
  "validate_inputs a = Inr u \<Longrightarrow> 0 \<le> num_vars a \<and> 0 \<le> num_constraints a"
  by (auto simp: validate_inputs_Inr)

lemma reshape_row_length:
  assumes "length A = m * n" and "i < m"
  shows "length (take n (drop (i * n) A)) = n"
proof -
  have "Suc i * n \<le> m * n"
    using assms(2) by (intro mult_le_mono1) simp
  then have "n \<le> m * n - i * n" by simp
  with assms(1) show ?thesis by simp
qed

lemma reshape_constraints_wf:
  assumes "length A = m * n"
  shows "\<exists>Am. reshape_constraints A m n = Inr Am \<and> wf_array Am \<and> nrows Am = m \<and> ncols Am = n"
  using assms reshape_row_length [OF assms]
  by (simp add: reshape_constraints_def wf_array_def list_all_iff)

lemma reshape_valid:
  assumes "validate_inputs a = Inr u"
  shows "\<exists>Am. reshape_constraints (arg_A a) (nat (num_constraints a)) (nat (num_vars a)) = Inr Am \<and>
           dims_match Am (arg_b a) (constraint_signs a) (possible_sol a) \<and>
           length (arg_c a) = ncols Am"
proof -
  from assms have v: "int (length (arg_c a)) = num_vars a"
     "int (length (arg_A a)) = num_constraints a * num_vars a"
     "int (length (arg_b a)) = num_constraints a"
     "int (length (constraint_signs a)) = num_constraints a"
     "int (length (possible_sol a)) = num_vars a"
    by (simp_all add: validate_inputs_Inr)
  have m: "nat (num_constraints a) = length (arg_b a)" and n: "nat (num_vars a) = length (arg_c a)"
    using v(1,3) by simp_all
  have "int (length (arg_A a)) = int (length (arg_b a) * length (arg_c a))"
    using v(1,2,3) by simp
  then have "length (arg_A a) = nat (num_constraints a) * nat (num_vars a)"
    unfolding m n by (simp only: of_nat_eq_iff)
  from reshape_constraints_wf [OF this] obtain Am where
    Am: "reshape_constraints (arg_A a) (nat (num_constraints a)) (nat (num_vars a)) = Inr Am"
      "wf_array Am" "nrows Am = nat (num_constraints a)" "ncols Am = nat (num_vars a)"
    by blast
  have "dims_match Am (arg_b a) (constraint_signs a) (possible_sol a)"
    using Am(2,3,4) v by (auto simp: dims_match_def)
  with Am(1,4) n show ?thesis by simp
qed

subsection \<open>The dual transform\<close>

text \<open>On valid symbols the loop appends the flipped symbols to what it has.\<close>

lemma dual_signs_loop_valid:
  "set signs \<subseteq> valid_signs \<Longrightarrow>
   \<exists>ds. dual_signs_loop acc signs = Inr (acc @ ds) \<and> length ds = length signs \<and>
     (\<forall>i<length signs. flip (signs ! i) = Some (ds ! i))"
proof (induction signs arbitrary: acc)
  case Nil
  then show ?case by simp
next
  case (Cons s signs)
  from Cons.prems have s: "s = ''<='' \<or> s = ''='' \<or> s = ''>=''" and rest: "set signs \<subseteq> valid_signs"
    by (auto simp: valid_signs_def)
  define d where "d = (if s = ''<='' then ''>='' else if s = ''>='' then ''<='' else ''='')"
  have step: "dual_signs_loop acc (s # signs) = dual_signs_loop (acc @ [d]) signs"
    using s by (auto simp: d_def)
  have fl: "flip s = Some d"
    using s by (auto simp: d_def flip_def)
  from Cons.IH [OF rest, of "acc @ [d]"] obtain ds where
    ds: "dual_signs_loop (acc @ [d]) signs = Inr ((acc @ [d]) @ ds)"
        "length ds = length signs" "\<forall>i<length signs. flip (signs ! i) = Some (ds ! i)"
    by blast
  have "\<forall>i<length (s # signs). flip ((s # signs) ! i) = Some ((d # ds) ! i)"
    using fl ds(3) by (simp add: nth_Cons split: nat.split)
  with step ds(1,2) show ?case
    by (intro exI [of _ "d # ds"]) simp
qed

text \<open>
  Claim C1. For a primal problem with \<open>M\<close> constraint rows over \<open>N\<close> variables whose relation
  symbols are all among \<open>\<le>\<close>, \<open>=\<close>, \<open>\<ge>\<close>, the dual transform returns the primal right-hand
  side as dual objective (length \<open>M\<close>), the transpose of the constraint matrix as dual
  matrix (shape \<open>N \<times> M\<close>, entry \<open>[i][j]\<close> the primal entry \<open>[j][i]\<close>), the primal objective as
  dual right-hand side (length \<open>N\<close>), and the flipped symbols, symbol \<open>i\<close> of the dual
  being the flip of symbol \<open>i\<close> of the primal.
\<close>

theorem transpose_to_dual_correct:
  assumes "wf_lp c A b signs" and "set signs \<subseteq> valid_signs"
  shows "\<exists>dual_c dual_A dual_b dual_signs.
           transpose_to_dual c A b signs problem_type = Inr (dual_c, dual_A, dual_b, dual_signs) \<and>
           dual_c = b \<and> length dual_c = nrows A \<and>
           wf_array dual_A \<and> nrows dual_A = ncols A \<and> ncols dual_A = nrows A \<and>
           (\<forall>i<ncols A. \<forall>j<nrows A. rowsof dual_A ! i ! j = rowsof A ! j ! i) \<and>
           dual_b = c \<and> length dual_b = ncols A \<and>
           length dual_signs = nrows A \<and>
           (\<forall>i<nrows A. flip (signs ! i) = Some (dual_signs ! i))"
proof -
  from assms(1) have wf: "wf_array A" and len: "length c = ncols A" "length b = nrows A"
    "length signs = nrows A"
    by (simp_all add: wf_lp_def)
  from dual_signs_loop_valid [OF assms(2), of "[]"] obtain ds where
    ds: "dual_signs_loop [] signs = Inr ds" "length ds = length signs"
        "\<forall>i<length signs. flip (signs ! i) = Some (ds ! i)"
    by auto
  have "transpose_to_dual c A b signs problem_type = Inr (b, np_T A, c, ds)"
    by (simp add: transpose_to_dual_def ds(1))
  then show ?thesis
    using ds(2,3) len np_T_wf [OF wf] np_T_entry [OF wf] by (simp add: np_T_shape)
qed

theorem transpose_to_dual_correct_witness:
  "wf_lp ex_c ex_A ex_b ex_signs \<and> set ex_signs \<subseteq> valid_signs \<and>
   (\<exists>dual_c dual_A dual_b dual_signs.
      transpose_to_dual ex_c ex_A ex_b ex_signs ''max'' = Inr (dual_c, dual_A, dual_b, dual_signs) \<and>
      dual_c = ex_b \<and> length dual_c = nrows ex_A \<and>
      wf_array dual_A \<and> nrows dual_A = ncols ex_A \<and> ncols dual_A = nrows ex_A \<and>
      (\<forall>i<ncols ex_A. \<forall>j<nrows ex_A. rowsof dual_A ! i ! j = rowsof ex_A ! j ! i) \<and>
      dual_b = ex_c \<and> length dual_b = ncols ex_A \<and>
      length dual_signs = nrows ex_A \<and>
      (\<forall>i<nrows ex_A. flip (ex_signs ! i) = Some (dual_signs ! i)))"
proof -
  have h1: "wf_lp ex_c ex_A ex_b ex_signs"
    by (simp add: wf_lp_def ex_A_wf) (simp add: ex_c_def ex_A_def ex_b_def ex_signs_def)
  have h2: "set ex_signs \<subseteq> valid_signs"
    by (simp add: ex_signs_def valid_signs_def)
  show ?thesis
    by (rule conjI [OF h1 conjI [OF h2 transpose_to_dual_correct [OF h1 h2]]])
qed

text \<open>The scenario of the specification, computed.\<close>

lemma transpose_to_dual_scenario:
  "transpose_to_dual ex_c ex_A ex_b ex_signs ''max'' =
     Inr (map Fin [4, 12, 18],
          \<lparr>nrows = 2, ncols = 3, rowsof = map (map Fin) [[1, 0, 3], [0, 2, 2]]\<rparr>,
          map Fin [3, 5], [''>='', ''>='', ''>=''])"
  by (simp add: transpose_to_dual_def np_T_def ex_c_def ex_A_def ex_b_def ex_signs_def upt_rec)

text \<open>
  Claim C9. The dual transform does not depend on the optimisation direction: with
  \<open>max\<close> and with \<open>min\<close>, and indeed with any two values of that argument, it returns the
  same dual objective, matrix, right-hand side and symbols, or raises the same exception.
\<close>

theorem transpose_to_dual_direction:
  "transpose_to_dual c A b signs ''max'' = transpose_to_dual c A b signs ''min'' \<and>
   transpose_to_dual c A b signs t1 = transpose_to_dual c A b signs t2"
  by (simp add: transpose_to_dual_def)

theorem transpose_to_dual_direction_witness:
  "transpose_to_dual ex_c ex_A ex_b ex_signs ''max'' = transpose_to_dual ex_c ex_A ex_b ex_signs ''min''"
  using transpose_to_dual_direction [of ex_c ex_A ex_b ex_signs] by (rule conjunct1)


subsection \<open>The feasibility check\<close>

text \<open>
  One pass of the loop on a row that is in range and as long as the point: either the row
  passes and the loop goes on, or the result is \<open>False\<close>.
\<close>

lemma verify_loop_step:
  assumes "i < nrows A" and "length (rowsof A ! i) = length sol" and "i < length b"
  shows "verify_loop np A b sol i (sign # rest) =
           (if row_passes np sign (dot64 np (rowsof A ! i) sol) (b ! i)
            then verify_loop np A b sol (Suc i) rest else Inr False)"
  using assms by (simp add: np_row_def np_dot_def np_get_def sign_and_def row_passes_def)

lemma verify_loop_rows:
  assumes "wf_array A" and "ncols A = length sol"
    and "i + length signs \<le> nrows A" and "i + length signs \<le> length b"
  shows "verify_loop np A b sol i signs =
           Inr (\<forall>k<length signs.
                  row_passes np (signs ! k) (dot64 np (rowsof A ! (i + k)) sol) (b ! (i + k)))"
  using assms(3,4)
proof (induction signs arbitrary: i)
  case Nil
  show ?case by simp
next
  case (Cons sign rest)
  have i: "i < nrows A" "i < length b" using Cons.prems by simp_all
  have len: "length (rowsof A ! i) = length sol"
    using wf_array_row [OF assms(1) i(1)] assms(2) by simp
  have IH: "verify_loop np A b sol (Suc i) rest =
              Inr (\<forall>k<length rest.
                     row_passes np (rest ! k) (dot64 np (rowsof A ! (Suc i + k)) sol) (b ! (Suc i + k)))"
    using Cons.prems by (intro Cons.IH) simp_all
  show ?case
    unfolding verify_loop_step [OF i(1) len i(2)] IH
    by (simp add: All_less_Suc2)
qed

lemma verify_feasibility_rows:
  assumes "wf_array A" and "ncols A = length sol"
    and "length signs \<le> nrows A" and "length signs \<le> length b"
  shows "verify_feasibility np A b signs sol =
           Inr (\<forall>i<length signs. passes_at np A b signs sol i)"
  using verify_loop_rows [OF assms(1,2), of 0 signs b np] assms(3,4)
  by (simp add: verify_feasibility_def passes_at_def lhs_of_def)

text \<open>When the point has the wrong length, the first pass raises.\<close>

lemma verify_feasibility_misaligned:
  assumes "wf_array A" and "ncols A \<noteq> length sol" and "length signs = nrows A" and "signs \<noteq> []"
  shows "verify_feasibility np A b signs sol = Inl (ValueError Shapes_not_aligned)"
proof -
  from assms(4) obtain sign rest where signs: "signs = sign # rest"
    by (cases signs) auto
  with assms(3) have "0 < nrows A" by simp
  with wf_array_row [OF assms(1), of 0] assms(2) show ?thesis
    by (simp add: signs verify_feasibility_def np_row_def np_dot_def)
qed

text \<open>
  A row with a valid symbol whose two sides can be compared passes exactly when it
  stands in its relation; a row with any other symbol passes.
\<close>

lemma row_passes_valid:
  assumes "sign \<in> valid_signs" and "sign = ''='' \<or> (\<not> is_nan lhs \<and> \<not> is_nan rhs)"
  shows "row_passes np sign lhs rhs = (relation_holds np sign lhs rhs = Some True)"
  using assms not_fgt_iff [of lhs rhs] not_flt_iff [of lhs rhs]
  by (auto simp: valid_signs_def row_passes_def relation_holds_def)

lemma passes_at_valid:
  assumes "signs ! i \<in> valid_signs" and "comparable_at np A b signs sol i"
  shows "passes_at np A b signs sol i = (row_holds np A b signs sol i = Some True)"
  using row_passes_valid [OF assms(1), of "lhs_of np A sol i" "b ! i" np] assms(2)
  by (simp add: passes_at_def row_holds_def comparable_at_def)

lemma row_passes_invalid:
  "sign \<notin> valid_signs \<Longrightarrow> row_passes np sign lhs rhs"
  by (auto simp: valid_signs_def row_passes_def)

lemma foldr_conj: "foldr (\<and>) (map P xs) True = (\<forall>x\<in>set xs. P x)"
  by (induction xs) auto

lemma all_rows_iff:
  "all_rows np A b signs sol = (\<forall>i<length signs. passes_at np A b signs sol i)"
  by (auto simp: all_rows_def foldr_conj)

lemma ex_dims_match: "dims_match ex_A ex_b ex_signs ex_sol"
  by (simp add: dims_match_def ex_A_wf) (simp add: ex_A_def ex_b_def ex_signs_def ex_sol_def)

lemma ex_signs_valid: "set ex_signs \<subseteq> valid_signs"
  by (simp add: ex_signs_def valid_signs_def)

lemmas feasibility_defs =
  verify_feasibility_def np_row_def np_dot_def np_get_def sign_and_def np_isclose_def
  difference_def tolerance_def fgt_def fle_def fge_def exact_numpy_def xdot_def xsub_def

text \<open>The two scenarios of the specification, computed: \<open>(2, 6)\<close> is feasible, \<open>(5, 5)\<close> is not.\<close>

lemma verify_feasibility_scenarios:
  "verify_feasibility exact_numpy ex_A ex_b ex_signs (map Fin [2, 6]) = Inr True"
  "verify_feasibility exact_numpy ex_A ex_b ex_signs (map Fin [5, 5]) = Inr False"
  "verify_feasibility exact_numpy ex_A ex_b mixed_signs (map Fin [2, 6]) = Inr True"
  by (simp_all add: feasibility_defs ex_A_def ex_b_def ex_signs_def mixed_signs_def)

text \<open>
  Claim C2 says that the feasibility check returns true exactly when every row \<open>i\<close>
  has \<open>lhs \<le> rhs[i]\<close>, \<open>lhs \<ge> rhs[i]\<close> or closeness, by its symbol. The code tests the
  violations instead, \<open>lhs > rhs[i]\<close> and \<open>lhs < rhs[i]\<close>, and no comparison with NaN is
  true: with the right-hand side NaN a \<open>\<le>\<close> row passes although \<open>1 \<le> NaN\<close> is false.
\<close>

theorem verify_feasibility_nan_counterexample:
  "dims_match one_A [NaN] [''<=''] [Fin 1] \<and> set [''<=''] \<subseteq> valid_signs \<and>
   verify_feasibility exact_numpy one_A [NaN] [''<=''] [Fin 1] = Inr True \<and>
   row_holds exact_numpy one_A [NaN] [''<=''] [Fin 1] 0 = Some False"
  by (simp add: dims_match_def wf_array_def one_A_def valid_signs_def feasibility_defs
      row_holds_def relation_holds_def lhs_of_def)

text \<open>
  Claim C2, amended. For a constraint matrix, right-hand side, relation symbols and
  candidate point of matching dimensions, the symbols among \<open>\<le>\<close>, \<open>=\<close>, \<open>\<ge>\<close>, the
  feasibility check returns true exactly when no row is violated, where the left-hand
  side is the dot product of the row and the point as numpy computes it, a \<open>\<le>\<close> row is
  violated when \<open>lhs > rhs[i]\<close>, a \<open>\<ge>\<close> row when \<open>lhs < rhs[i]\<close>, and an \<open>=\<close> row when the
  two are not close. The result is the conjunction over all rows: stopping at the first
  violated row gives what evaluating every row gives, and one violated row makes it
  false. On a row whose two sides are not NaN, not being violated is \<open>lhs \<le> rhs[i]\<close>,
  respectively \<open>lhs \<ge> rhs[i]\<close>; when that is so on every \<open>\<le>\<close> and \<open>\<ge>\<close> row, the check
  returns true exactly when every row stands in its relation.
\<close>

theorem verify_feasibility_conjunction:
  assumes "dims_match A b signs sol" and "set signs \<subseteq> valid_signs"
  shows "verify_feasibility np A b signs sol =
           Inr (\<forall>i<nrows A. passes_at np A b signs sol i) \<and>
         verify_feasibility np A b signs sol = Inr (all_rows np A b signs sol) \<and>
         ((\<exists>i<nrows A. \<not> passes_at np A b signs sol i) \<longrightarrow>
            verify_feasibility np A b signs sol = Inr False) \<and>
         (\<forall>i<nrows A. comparable_at np A b signs sol i \<longrightarrow>
            passes_at np A b signs sol i = (row_holds np A b signs sol i = Some True)) \<and>
         ((\<forall>i<nrows A. comparable_at np A b signs sol i) \<longrightarrow>
            verify_feasibility np A b signs sol =
              Inr (\<forall>i<nrows A. row_holds np A b signs sol i = Some True))"
proof -
  from assms(1) have wf: "wf_array A" and len: "length b = nrows A" "length signs = nrows A"
    "length sol = ncols A"
    by (simp_all add: dims_match_def)
  have code: "verify_feasibility np A b signs sol =
      Inr (\<forall>i<nrows A. passes_at np A b signs sol i)"
    using verify_feasibility_rows [of A sol signs b np] wf len by simp
  have rel: "passes_at np A b signs sol i = (row_holds np A b signs sol i = Some True)"
    if "i < nrows A" and "comparable_at np A b signs sol i" for i
    using that assms(2) len by (intro passes_at_valid) (simp_all add: subset_iff)
  have all: "all_rows np A b signs sol = (\<forall>i<nrows A. passes_at np A b signs sol i)"
    using len by (simp add: all_rows_iff)
  have spec: "verify_feasibility np A b signs sol =
      Inr (\<forall>i<nrows A. row_holds np A b signs sol i = Some True)"
    if "\<forall>i<nrows A. comparable_at np A b signs sol i"
    using that rel by (simp add: code)
  from code all rel spec show ?thesis
    by auto
qed

theorem verify_feasibility_conjunction_witness:
  "dims_match ex_A ex_b ex_signs ex_sol \<and> set ex_signs \<subseteq> valid_signs \<and>
   verify_feasibility exact_numpy ex_A ex_b ex_signs ex_sol = Inr True \<and>
   all_rows exact_numpy ex_A ex_b ex_signs ex_sol \<and>
   dims_match ex_A ex_b ex_signs (map Fin [5, 5]) \<and>
   (\<exists>i<nrows ex_A. \<not> passes_at exact_numpy ex_A ex_b ex_signs (map Fin [5, 5]) i) \<and>
   verify_feasibility exact_numpy ex_A ex_b ex_signs (map Fin [5, 5]) = Inr False \<and>
   dims_match ex_A ex_b mixed_signs ex_sol \<and> set mixed_signs \<subseteq> valid_signs \<and>
   list_all (comparable_at exact_numpy ex_A ex_b mixed_signs ex_sol) [0..<nrows ex_A] \<and>
   list_all (\<lambda>i. row_holds exact_numpy ex_A ex_b mixed_signs ex_sol i = Some True)
     [0..<nrows ex_A] \<and>
   verify_feasibility exact_numpy ex_A ex_b mixed_signs ex_sol = Inr True"
proof -
  note inst = verify_feasibility_conjunction [where np = exact_numpy]
  have rows: "\<forall>i<nrows ex_A. passes_at exact_numpy ex_A ex_b ex_signs ex_sol i"
    by (simp add: passes_at_def row_passes_def lhs_of_def feasibility_defs ex_A_def ex_b_def
        ex_signs_def ex_sol_def All_less_Suc numeral_3_eq_3)
  have good: "verify_feasibility exact_numpy ex_A ex_b ex_signs ex_sol = Inr True \<and>
      all_rows exact_numpy ex_A ex_b ex_signs ex_sol"
    using inst [OF ex_dims_match ex_signs_valid] rows by auto
  have h: "dims_match ex_A ex_b ex_signs (map Fin [5, 5])"
    using ex_dims_match by (simp add: dims_match_def ex_sol_def)
  have "0 < nrows ex_A \<and> \<not> passes_at exact_numpy ex_A ex_b ex_signs (map Fin [5, 5]) 0"
    by (simp add: passes_at_def row_passes_def lhs_of_def feasibility_defs ex_A_def ex_b_def
        ex_signs_def)
  then have bad: "\<exists>i<nrows ex_A. \<not> passes_at exact_numpy ex_A ex_b ex_signs (map Fin [5, 5]) i"
    by blast
  have infeasible: "verify_feasibility exact_numpy ex_A ex_b ex_signs (map Fin [5, 5]) = Inr False"
    using inst [OF h ex_signs_valid] bad by blast
  have m1: "dims_match ex_A ex_b mixed_signs ex_sol"
    using ex_dims_match by (simp add: dims_match_def ex_signs_def mixed_signs_def)
  have m2: "set mixed_signs \<subseteq> valid_signs"
    by (simp add: mixed_signs_def valid_signs_def)
  have m3: "list_all (comparable_at exact_numpy ex_A ex_b mixed_signs ex_sol) [0..<nrows ex_A]"
    by (simp add: comparable_at_def lhs_of_def exact_numpy_def xdot_def ex_A_def ex_b_def
        mixed_signs_def ex_sol_def upt_rec)
  have m4: "list_all (\<lambda>i. row_holds exact_numpy ex_A ex_b mixed_signs ex_sol i = Some True)
      [0..<nrows ex_A]"
    by (simp add: row_holds_def relation_holds_def lhs_of_def feasibility_defs ex_A_def
        ex_b_def mixed_signs_def ex_sol_def upt_rec)
  have mixed: "verify_feasibility exact_numpy ex_A ex_b mixed_signs ex_sol = Inr True"
    using inst [OF m1 m2] m3 m4 by (auto simp: list_all_iff)
  from ex_dims_match ex_signs_valid good h bad infeasible m1 m2 m3 m4 mixed show ?thesis
    by blast
qed

lemma verify_feasibility_total:
  assumes "dims_match A b signs sol"
  shows "\<exists>v. verify_feasibility np A b signs sol = Inr v"
  using assms verify_feasibility_rows [of A sol signs b np] by (simp add: dims_match_def)

text \<open>
  Claim C10. The feasibility check raises nothing whatever the relation symbols are: a
  row whose symbol is none of \<open>\<le>\<close>, \<open>\<ge>\<close>, \<open>=\<close> fires none of the three tests and
  restricts nothing, so with matching dimensions the verdict is the conjunction over the
  rows with a valid symbol only (of the rows standing in their relations, when no side of
  a \<open>\<le>\<close> or \<open>\<ge>\<close> row is NaN), and a point is reported feasible when every symbol is
  invalid, whatever the numbers are. In the program the dimensions always match: for
  every command line that passes \<open>validate_inputs\<close>, whatever its symbols, the
  feasibility check on the reshaped matrix returns a boolean.
\<close>

theorem verify_feasibility_skips_invalid_signs:
  "(dims_match A b signs sol \<longrightarrow>
      (\<exists>v. verify_feasibility np A b signs sol = Inr v) \<and>
      verify_feasibility np A b signs sol =
        Inr (\<forall>i<nrows A. signs ! i \<in> valid_signs \<longrightarrow> passes_at np A b signs sol i) \<and>
      ((\<forall>i<nrows A. comparable_at np A b signs sol i) \<longrightarrow>
         verify_feasibility np A b signs sol =
           Inr (\<forall>i<nrows A. signs ! i \<in> valid_signs \<longrightarrow>
                  row_holds np A b signs sol i = Some True)) \<and>
      ((\<forall>i<nrows A. signs ! i \<notin> valid_signs) \<longrightarrow>
         verify_feasibility np A b signs sol = Inr True)) \<and>
   (validate_inputs a = Inr () \<longrightarrow>
      (\<exists>A_matrix v.
         reshape_constraints (arg_A a) (nat (num_constraints a)) (nat (num_vars a)) = Inr A_matrix \<and>
         verify_feasibility np A_matrix (arg_b a) (constraint_signs a) (possible_sol a) = Inr v))"
proof (intro conjI impI)
  assume dims: "dims_match A b signs sol"
  then have wf: "wf_array A" and len: "length b = nrows A" "length signs = nrows A"
    "length sol = ncols A"
    by (simp_all add: dims_match_def)
  have code: "verify_feasibility np A b signs sol =
      Inr (\<forall>i<nrows A. passes_at np A b signs sol i)"
    using verify_feasibility_rows [of A sol signs b np] wf len by simp
  have skip: "passes_at np A b signs sol i =
      (signs ! i \<in> valid_signs \<longrightarrow> passes_at np A b signs sol i)" for i
    using row_passes_invalid [of "signs ! i" np] by (auto simp: passes_at_def)
  show eq: "verify_feasibility np A b signs sol =
      Inr (\<forall>i<nrows A. signs ! i \<in> valid_signs \<longrightarrow> passes_at np A b signs sol i)"
    using skip by (simp add: code)
  then show "\<exists>v. verify_feasibility np A b signs sol = Inr v"
    by simp
  show "verify_feasibility np A b signs sol = Inr True" if "\<forall>i<nrows A. signs ! i \<notin> valid_signs"
    using eq that by simp
  show "verify_feasibility np A b signs sol =
      Inr (\<forall>i<nrows A. signs ! i \<in> valid_signs \<longrightarrow> row_holds np A b signs sol i = Some True)"
    if "\<forall>i<nrows A. comparable_at np A b signs sol i"
    using that passes_at_valid [of signs _ np A b sol] by (auto simp: eq)
next
  assume "validate_inputs a = Inr ()"
  from reshape_valid [OF this] obtain Am where
    Am: "reshape_constraints (arg_A a) (nat (num_constraints a)) (nat (num_vars a)) = Inr Am"
        "dims_match Am (arg_b a) (constraint_signs a) (possible_sol a)"
    by blast
  with verify_feasibility_total [OF Am(2), of np]
  show "\<exists>A_matrix v.
      reshape_constraints (arg_A a) (nat (num_constraints a)) (nat (num_vars a)) = Inr A_matrix \<and>
      verify_feasibility np A_matrix (arg_b a) (constraint_signs a) (possible_sol a) = Inr v"
    by blast
qed

theorem verify_feasibility_skips_invalid_signs_witness:
  "dims_match one_A [Fin 0] [''!=''] [Fin 5] \<and> ''!='' \<notin> valid_signs \<and>
   verify_feasibility exact_numpy one_A [Fin 0] [''!=''] [Fin 5] = Inr True \<and>
   validate_inputs ex_args_bad_sign = Inr () \<and>
   (\<exists>A_matrix v.
      reshape_constraints (arg_A ex_args_bad_sign) (nat (num_constraints ex_args_bad_sign))
        (nat (num_vars ex_args_bad_sign)) = Inr A_matrix \<and>
      verify_feasibility exact_numpy A_matrix (arg_b ex_args_bad_sign)
        (constraint_signs ex_args_bad_sign) (possible_sol ex_args_bad_sign) = Inr v)"
proof -
  have h: "dims_match one_A [Fin 0] [''!=''] [Fin 5]"
    by (simp add: dims_match_def wf_array_def one_A_def)
  have inv: "''!='' \<notin> valid_signs"
    by (simp add: valid_signs_def)
  then have all: "\<forall>i<nrows one_A. [''!=''] ! i \<notin> valid_signs"
    by (simp add: one_A_def)
  have v: "validate_inputs ex_args_bad_sign = Inr ()"
    by (simp add: validate_inputs_def ex_args_bad_sign_def ex_args_def)
  note inst = verify_feasibility_skips_invalid_signs
    [of one_A "[Fin 0]" "[''!='']" "[Fin 5]" exact_numpy ex_args_bad_sign]
  from inst h all have "verify_feasibility exact_numpy one_A [Fin 0] [''!=''] [Fin 5] = Inr True"
    by blast
  moreover from inst v have "\<exists>A_matrix v.
      reshape_constraints (arg_A ex_args_bad_sign) (nat (num_constraints ex_args_bad_sign))
        (nat (num_vars ex_args_bad_sign)) = Inr A_matrix \<and>
      verify_feasibility exact_numpy A_matrix (arg_b ex_args_bad_sign)
        (constraint_signs ex_args_bad_sign) (possible_sol ex_args_bad_sign) = Inr v"
    by blast
  ultimately show ?thesis
    using h inv v by blast
qed

text \<open>A list with the elements of \<open>[0..<n]\<close> is a permutation of the indices below \<open>n\<close>.\<close>

lemma mset_upt_set: "mset p = mset [0..<n] \<Longrightarrow> set p = {0..<n}"
  by (metis mset_eq_setD set_upt)

lemma mset_upt_length: "mset p = mset [0..<n] \<Longrightarrow> length p = n"
  by (metis length_upt mset_eq_length minus_nat.diff_0)

text \<open>
  Claim C8. Reordering the constraint rows, the right-hand sides and the relation symbols
  by one and the same permutation leaves the verdict of the feasibility check as it was
  (the exception too, when the point has the wrong length).
\<close>

theorem verify_feasibility_permutation:
  assumes "wf_array A" and "length b = nrows A" and "length signs = nrows A"
    and "mset p = mset [0..<nrows A]"
  shows "verify_feasibility np (permute_rows p A) (permute p b) (permute p signs) sol =
         verify_feasibility np A b signs sol"
proof -
  let ?A = "permute_rows p A" and ?b = "permute p b" and ?signs = "permute p signs"
  have setp: "set p = {0..<nrows A}" and lenp: "length p = nrows A"
    using assms(4) by (simp_all add: mset_upt_set mset_upt_length)
  have shape: "nrows ?A = nrows A" "ncols ?A = ncols A"
    by (simp_all add: permute_rows_def)
  have inp: "p ! k < nrows A" if "k < length p" for k
    using nth_mem [OF that] setp by simp
  have wf': "wf_array ?A"
    using assms(1) lenp inp
    by (simp add: wf_array_def permute_rows_def permute_def list_all_length)
  have len': "length ?b = nrows A" "length ?signs = nrows A"
    by (simp_all add: permute_def lenp)
  show ?thesis
  proof (cases "ncols A = length sol")
    case True
    have old: "verify_feasibility np A b signs sol =
        Inr (\<forall>i<nrows A. passes_at np A b signs sol i)"
      using verify_feasibility_rows [OF assms(1) True, of signs b np] assms(2,3) by simp
    have new: "verify_feasibility np ?A ?b ?signs sol =
        Inr (\<forall>k<nrows A. passes_at np ?A ?b ?signs sol k)"
      using verify_feasibility_rows [OF wf', of sol ?signs ?b np] True len' shape by simp
    have "(\<forall>k<nrows A. passes_at np ?A ?b ?signs sol k) =
          (\<forall>k<length p. passes_at np A b signs sol (p ! k))"
      by (simp add: passes_at_def lhs_of_def permute_def permute_rows_def lenp)
    also have "\<dots> = (\<forall>i\<in>set p. passes_at np A b signs sol i)"
      by (simp add: all_set_conv_all_nth)
    also have "\<dots> = (\<forall>i<nrows A. passes_at np A b signs sol i)"
      by (auto simp: setp)
    finally show ?thesis
      by (simp add: old new)
  next
    case False
    show ?thesis
    proof (cases "signs = []")
      case True
      with assms(3) lenp have "p = []" by simp
      with True show ?thesis
        by (simp add: verify_feasibility_def permute_def)
    next
      case nonempty: False
      with len' assms(3) have "?signs \<noteq> []" by auto
      with verify_feasibility_misaligned [OF wf', of sol ?signs np ?b] False shape len'
      have "verify_feasibility np ?A ?b ?signs sol = Inl (ValueError Shapes_not_aligned)" by simp
      moreover have "verify_feasibility np A b signs sol = Inl (ValueError Shapes_not_aligned)"
        using verify_feasibility_misaligned [OF assms(1) False assms(3) nonempty] .
      ultimately show ?thesis by simp
    qed
  qed
qed

theorem verify_feasibility_permutation_witness:
  "wf_array ex_A \<and> length ex_b = nrows ex_A \<and> length ex_signs = nrows ex_A \<and>
   mset [2, 0, 1] = mset [0..<nrows ex_A] \<and>
   verify_feasibility exact_numpy (permute_rows [2, 0, 1] ex_A) (permute [2, 0, 1] ex_b)
     (permute [2, 0, 1] ex_signs) ex_sol =
   verify_feasibility exact_numpy ex_A ex_b ex_signs ex_sol"
proof -
  have h2: "length ex_b = nrows ex_A" and h3: "length ex_signs = nrows ex_A"
    by (simp_all add: ex_A_def ex_b_def ex_signs_def)
  have h4: "mset [2, 0, 1] = mset [0..<nrows ex_A]"
    by (simp add: ex_A_def upt_rec)
  show ?thesis
    by (rule conjI [OF ex_A_wf conjI [OF h2 conjI [OF h3 conjI [OF h4
          verify_feasibility_permutation [OF ex_A_wf h2 h3 h4]]]]])
qed

subsection \<open>The optimality check\<close>

lemmas optimality_defs =
  check_optimality_def np_dot_def np_isclose_def difference_def tolerance_def fgt_def fle_def
  exact_numpy_def xdot_def xsub_def

text \<open>
  Claim C4 says that the optimality check reports true exactly when the two values are
  close, the difference being within the tolerance when it reports true and exceeding it
  when it reports false. Neither holds of values that are not finite. With a candidate
  point holding NaN the primal value is NaN and the report is false, but nothing exceeds
  anything: every comparison with NaN is false. With both values \<open>+\<infinity>\<close> the report is
  true, but their difference is NaN and is not within the tolerance.
\<close>

theorem check_optimality_nan_counterexample:
  "length [Fin 1] = length [NaN] \<and> length [Fin 1] = length [Fin 1] \<and>
   check_optimality exact_numpy [NaN] [Fin 1] [Fin 1] [Fin 1] = Inr (False, NaN, Fin 1) \<and>
   \<not> fgt (difference exact_numpy NaN (Fin 1)) (tolerance exact_numpy (Fin 1)) \<and>
   check_optimality exact_numpy [PInf] [PInf] [Fin 1] [Fin 1] = Inr (True, PInf, PInf) \<and>
   \<not> fle (difference exact_numpy PInf PInf) (tolerance exact_numpy PInf)"
  by (simp add: optimality_defs)

text \<open>
  Claim C4, amended. For a primal point, a dual point, an objective and a right-hand side
  of matching dimensions, the optimality check returns the dot product of the objective
  and the primal point as primal value, the dot product of the right-hand side and the
  dual point as dual value, both as numpy computes them, and reports what \<^verbatim>\<open>np.isclose\<close>
  says of the two. When both values are finite, it reports true exactly when their
  difference \<open>|primal - dual|\<close> is within the tolerance \<open>atol + rtol * |dual|\<close>, both in
  double arithmetic, and when it reports false the difference exceeds the tolerance
  unless one of the two is NaN. When a value is not finite, it reports true exactly when
  the two are the same infinity.
\<close>

theorem check_optimality_correct:
  assumes "length c = length primal_sol" and "length b = length dual_sol"
  shows "\<exists>is_optimal primal_obj_value dual_obj_value.
           check_optimality np primal_sol dual_sol c b =
             Inr (is_optimal, primal_obj_value, dual_obj_value) \<and>
           primal_obj_value = dot64 np c primal_sol \<and>
           dual_obj_value = dot64 np b dual_sol \<and>
           is_optimal = np_isclose np primal_obj_value dual_obj_value \<and>
           (is_finite primal_obj_value \<and> is_finite dual_obj_value \<longrightarrow>
              is_optimal = fle (difference np primal_obj_value dual_obj_value)
                             (tolerance np dual_obj_value)) \<and>
           (is_finite primal_obj_value \<and> is_finite dual_obj_value \<and>
            \<not> is_nan (difference np primal_obj_value dual_obj_value) \<and>
            \<not> is_nan (tolerance np dual_obj_value) \<longrightarrow>
              (\<not> is_optimal) = fgt (difference np primal_obj_value dual_obj_value)
                                 (tolerance np dual_obj_value)) \<and>
           (\<not> (is_finite primal_obj_value \<and> is_finite dual_obj_value) \<longrightarrow>
              is_optimal = feq primal_obj_value dual_obj_value)"
  using assms not_fle_iff
  by (simp add: check_optimality_def np_dot_def np_isclose_def)

theorem check_optimality_correct_witness:
  "length ex_c = length ex_sol \<and> length ex_b = length (map Fin [0, 3 / 2, 1]) \<and>
   check_optimality exact_numpy ex_sol (map Fin [0, 3 / 2, 1]) ex_c ex_b =
     Inr (True, Fin 36, Fin 36) \<and>
   fle (difference exact_numpy (Fin 36) (Fin 36)) (tolerance exact_numpy (Fin 36)) \<and>
   length ex_b = length (map Fin [0, 0, 1]) \<and>
   check_optimality exact_numpy ex_sol (map Fin [0, 0, 1]) ex_c ex_b =
     Inr (False, Fin 36, Fin 18) \<and>
   fgt (difference exact_numpy (Fin 36) (Fin 18)) (tolerance exact_numpy (Fin 18))"
proof -
  have h1: "length ex_c = length ex_sol"
    and h2: "length ex_b = length (map Fin [0, 3 / 2, 1])"
    and h3: "length ex_b = length (map Fin [0, 0, 1])"
    by (simp_all add: ex_c_def ex_sol_def ex_b_def)
  have p: "dot64 exact_numpy ex_c ex_sol = Fin 36"
    and d: "dot64 exact_numpy ex_b (map Fin [0, 3 / 2, 1]) = Fin 36"
    and d': "dot64 exact_numpy ex_b (map Fin [0, 0, 1]) = Fin 18"
    by (simp_all add: exact_numpy_def xdot_def ex_c_def ex_sol_def ex_b_def)
  have close: "np_isclose exact_numpy (Fin 36) (Fin 36)"
    and far: "\<not> np_isclose exact_numpy (Fin 36) (Fin 18)"
    and nn: "\<not> is_nan (difference exact_numpy (Fin 36) (Fin 18))"
      "\<not> is_nan (tolerance exact_numpy (Fin 18))"
    by (simp_all add: optimality_defs)
  from check_optimality_correct [OF h1 h2, of exact_numpy] close
  have a: "check_optimality exact_numpy ex_sol (map Fin [0, 3 / 2, 1]) ex_c ex_b =
        Inr (True, Fin 36, Fin 36) \<and>
      fle (difference exact_numpy (Fin 36) (Fin 36)) (tolerance exact_numpy (Fin 36))"
    unfolding p d by auto
  from check_optimality_correct [OF h1 h3, of exact_numpy] far nn
  have b: "check_optimality exact_numpy ex_sol (map Fin [0, 0, 1]) ex_c ex_b =
        Inr (False, Fin 36, Fin 18) \<and>
      fgt (difference exact_numpy (Fin 36) (Fin 18)) (tolerance exact_numpy (Fin 18))"
    unfolding p d' by auto
  from h1 h2 h3 a b show ?thesis
    by blast
qed

subsection \<open>The solver call\<close>

lemma solve_dual_eq:
  "solve_dual linprog A_T b c =
     (case linprog c (np_neg2 A_T) (np_neg b) of
        Inl e \<Rightarrow> ([Linprog c (np_neg2 A_T) (np_neg b)], Inl e)
      | Inr res \<Rightarrow>
          if res_success res
          then ([Linprog c (np_neg2 A_T) (np_neg b)], Inr (Some (res_x res)))
          else ([Linprog c (np_neg2 A_T) (np_neg b), Print Dual_Not_Solved], Inr None))"
  by (simp add: solve_dual_def Let_def emit_def ret_def lift_def split: sum.splits)

text \<open>
  Claim C5. Whatever dual problem \<open>solve_dual\<close> is given, it calls the solver once, with
  the objective as it is and with the negated matrix and the negated right-hand side as
  upper-bound constraints \<open>-A_T x \<le> -b\<close>. A point satisfies these exactly when it
  satisfies \<open>A_T x \<ge> b\<close>. The result is the solver's point when the solver reports
  success and nothing when it reports failure; an exception of the solver is passed on.
\<close>

theorem solve_dual_poses_ge:
  assumes "wf_array A_T" and "length b = nrows A_T"
  shows "\<exists>A_ub b_ub rest.
           fst (solve_dual linprog A_T b c) = Linprog c A_ub b_ub # rest \<and>
           \<not> list_ex is_linprog rest \<and>
           snd (solve_dual linprog A_T b c) =
             (case linprog c A_ub b_ub of
                Inl e \<Rightarrow> Inl e
              | Inr res \<Rightarrow> Inr (if res_success res then Some (res_x res) else None)) \<and>
           nrows A_ub = nrows A_T \<and> ncols A_ub = ncols A_T \<and> length b_ub = length b \<and>
           (\<forall>i<nrows A_T. \<forall>j<ncols A_T. rowsof A_ub ! i ! j = fneg (rowsof A_T ! i ! j)) \<and>
           (\<forall>i<nrows A_T. b_ub ! i = fneg (b ! i)) \<and>
           (\<forall>x. satisfies_ub A_ub b_ub x = satisfies_ge A_T b x)"
proof -
  let ?A = "np_neg2 A_T" and ?b = "np_neg b"
  have entry: "rowsof ?A ! i ! j = fneg (rowsof A_T ! i ! j)" if "i < nrows A_T" "j < ncols A_T" for i j
    using that assms(1) by (simp add: np_neg2_row np_neg_def wf_array_row)
  have rhs: "?b ! i = fneg (b ! i)" if "i < nrows A_T" for i
    using that assms(2) by (simp add: np_neg_def)
  have "satisfies_ub ?A ?b x = satisfies_ge A_T b x" for x
    using assms by (simp add: satisfies_ub_def satisfies_ge_def list_all_iff np_neg2_shape
        np_neg2_row xdot_neg rhs fle_fneg)
  then show ?thesis
    using entry rhs
    by (intro exI [of _ ?A] exI [of _ ?b])
      (simp add: solve_dual_eq np_neg2_shape np_neg_def split: sum.splits)
qed

theorem solve_dual_poses_ge_witness:
  "wf_array (np_T ex_A) \<and> length ex_c = nrows (np_T ex_A) \<and>
   (\<exists>A_ub b_ub rest.
      fst (solve_dual ex_linprog (np_T ex_A) ex_c ex_b) = Linprog ex_b A_ub b_ub # rest \<and>
      \<not> list_ex is_linprog rest \<and>
      snd (solve_dual ex_linprog (np_T ex_A) ex_c ex_b) =
        (case ex_linprog ex_b A_ub b_ub of
           Inl e \<Rightarrow> Inl e
         | Inr res \<Rightarrow> Inr (if res_success res then Some (res_x res) else None)) \<and>
      nrows A_ub = nrows (np_T ex_A) \<and> ncols A_ub = ncols (np_T ex_A) \<and>
      length b_ub = length ex_c \<and>
      (\<forall>i<nrows (np_T ex_A). \<forall>j<ncols (np_T ex_A).
         rowsof A_ub ! i ! j = fneg (rowsof (np_T ex_A) ! i ! j)) \<and>
      (\<forall>i<nrows (np_T ex_A). b_ub ! i = fneg (ex_c ! i)) \<and>
      (\<forall>x. satisfies_ub A_ub b_ub x = satisfies_ge (np_T ex_A) ex_c x))"
proof -
  have h1: "wf_array (np_T ex_A)"
    by (rule np_T_wf [OF ex_A_wf])
  have h2: "length ex_c = nrows (np_T ex_A)"
    by (simp add: np_T_shape) (simp add: ex_c_def ex_A_def)
  show ?thesis
    by (rule conjI [OF h1 conjI [OF h2 solve_dual_poses_ge [OF h1 h2]]])
qed

text \<open>The call on the dual of the scenario, computed.\<close>

lemma solve_dual_scenario:
  "fst (solve_dual ex_linprog (np_T ex_A) ex_c ex_b) =
     [Linprog (map Fin [4, 12, 18])
        \<lparr>nrows = 2, ncols = 3, rowsof = map (map Fin) [[- 1, 0, - 3], [0, - 2, - 2]]\<rparr>
        (map Fin [- 3, - 5])]"
  by (simp add: solve_dual_eq ex_linprog_def np_neg2_def np_neg_def np_T_def ex_A_def ex_b_def
      ex_c_def upt_rec)

subsection \<open>Runs: sequencing, printing\<close>

lemma bind_io_emit: "bind_io (emit e) f = (e # fst (f ()), snd (f ()))"
  by (simp add: emit_def)

lemma bind_io_call_lift_Inl: "bind_io (call s (lift (Inl e))) f = ([Call s], Inl e)"
  by (simp add: call_def lift_def)

lemma bind_io_call_lift_Inr: "bind_io (call s (lift (Inr v))) f = (Call s # fst (f v), snd (f v))"
  by (simp add: call_def lift_def)

lemma bind_io_call_Inl: "snd m = Inl e \<Longrightarrow> bind_io (call s m) f = (Call s # fst m, Inl e)"
  by (cases m) (simp add: call_def)

lemma bind_io_call_Inr:
  "snd m = Inr v \<Longrightarrow> bind_io (call s m) f = (Call s # fst m @ fst (f v), snd (f v))"
  by (cases m) (simp add: call_def)

lemma bind_io_lift_Inl: "bind_io (lift (Inl e)) f = ([], Inl e)"
  by (simp add: lift_def)

lemma bind_io_lift_Inr: "bind_io (lift (Inr v)) f = f v"
  by (simp add: lift_def)

lemma print_rows_lines: "list_all is_problem_line (fst (print_rows A b signs idxs))"
proof (induction idxs)
  case Nil
  show ?case by (simp add: ret_def)
next
  case (Cons i rest)
  then show ?case
    by (cases "np_row A i"; cases "np_get signs i")
      (simp_all add: bind_io_lift_Inl bind_io_lift_Inr bind_io_emit)
qed

lemma print_rows_ok:
  "\<forall>i\<in>set idxs. i < nrows A \<and> i < length signs \<Longrightarrow> snd (print_rows A b signs idxs) = Inr ()"
  by (induction idxs) (simp_all add: ret_def np_row_def np_get_def bind_io_lift_Inr bind_io_emit)

lemma print_problem_eq:
  "print_problem c A b signs is_primal =
     (case snd (print_rows A b signs [0..<length b]) of
        Inl e \<Rightarrow> (Print (Problem_Title is_primal) # fst (print_rows A b signs [0..<length b]), Inl e)
      | Inr _ \<Rightarrow> (Print (Problem_Title is_primal) # fst (print_rows A b signs [0..<length b])
                   @ [Print (Problem_Objective is_primal c)], Inr ()))"
  by (cases "print_rows A b signs [0..<length b]")
    (auto simp: print_problem_def bind_io_emit emit_def split: sum.splits)

lemma print_problem_lines: "list_all is_problem_line (fst (print_problem c A b signs is_primal))"
  using print_rows_lines [of A b signs "[0..<length b]"]
  by (simp add: print_problem_eq split: sum.splits)

lemma print_problem_ok:
  "length b \<le> nrows A \<Longrightarrow> length b \<le> length signs \<Longrightarrow>
   snd (print_problem c A b signs is_primal) = Inr ()"
  using print_rows_ok [of "[0..<length b]" A signs b]
  by (simp add: print_problem_eq)

subsection \<open>The branches of the pipeline\<close>

lemma report_optimality_eq:
  "report_optimality np sol ds c b =
     (case check_optimality np sol ds c b of
        Inl e \<Rightarrow> ([Print (Dual_Solution ds), Call Check_Optimality], Inl e)
      | Inr (is_optimal, p, d) \<Rightarrow>
          ([Print (Dual_Solution ds), Call Check_Optimality,
            Print (if is_optimal then Optimal p else Not_Optimal p d)], Inr ()))"
  by (simp add: report_optimality_def bind_io_emit bind_io_call_lift_Inl bind_io_call_lift_Inr
      emit_def split: sum.splits)


text \<open>
  The five ways the feasible branch can go: the transform raises on an invalid symbol;
  printing the dual raises (it reads one relation symbol per dual constraint, and there
  are only as many symbols as primal constraints); the solver raises; the solver reports
  failure; the solver reports success and the optimality check follows.
\<close>

lemma dual_stage_cases:
  fixes np linprog c A b signs t sol
  defines "run \<equiv> dual_stage np linprog c A b signs t sol"
  obtains
    (transform_raised) e where
      "transpose_to_dual c A b signs t = Inl e"
      "run = ([Print (Solution_Feasible sol), Call Transpose_To_Dual], Inl e)"
  | (print_raised) dual_c dual_A dual_b dual_signs e where
      "transpose_to_dual c A b signs t = Inr (dual_c, dual_A, dual_b, dual_signs)"
      "snd (print_problem dual_c dual_A dual_b dual_signs False) = Inl e"
      "run = (Print (Solution_Feasible sol) # Call Transpose_To_Dual # Call Print_Problem #
              fst (print_problem dual_c dual_A dual_b dual_signs False), Inl e)"
  | (solver_raised) dual_c dual_A dual_b dual_signs e where
      "transpose_to_dual c A b signs t = Inr (dual_c, dual_A, dual_b, dual_signs)"
      "snd (print_problem dual_c dual_A dual_b dual_signs False) = Inr ()"
      "linprog dual_c (np_neg2 dual_A) (np_neg dual_b) = Inl e"
      "run = (Print (Solution_Feasible sol) # Call Transpose_To_Dual # Call Print_Problem #
              fst (print_problem dual_c dual_A dual_b dual_signs False) @
              [Call Solve_Dual, Linprog dual_c (np_neg2 dual_A) (np_neg dual_b)], Inl e)"
  | (solver_failed) dual_c dual_A dual_b dual_signs res where
      "transpose_to_dual c A b signs t = Inr (dual_c, dual_A, dual_b, dual_signs)"
      "snd (print_problem dual_c dual_A dual_b dual_signs False) = Inr ()"
      "linprog dual_c (np_neg2 dual_A) (np_neg dual_b) = Inr res"
      "\<not> res_success res"
      "run = (Print (Solution_Feasible sol) # Call Transpose_To_Dual # Call Print_Problem #
              fst (print_problem dual_c dual_A dual_b dual_signs False) @
              [Call Solve_Dual, Linprog dual_c (np_neg2 dual_A) (np_neg dual_b),
               Print Dual_Not_Solved], Inr ())"
  | (solved) dual_c dual_A dual_b dual_signs res where
      "transpose_to_dual c A b signs t = Inr (dual_c, dual_A, dual_b, dual_signs)"
      "snd (print_problem dual_c dual_A dual_b dual_signs False) = Inr ()"
      "linprog dual_c (np_neg2 dual_A) (np_neg dual_b) = Inr res"
      "res_success res"
      "run = (Print (Solution_Feasible sol) # Call Transpose_To_Dual # Call Print_Problem #
              fst (print_problem dual_c dual_A dual_b dual_signs False) @
              [Call Solve_Dual, Linprog dual_c (np_neg2 dual_A) (np_neg dual_b)] @
              fst (report_optimality np sol (res_x res) c b),
              snd (report_optimality np sol (res_x res) c b))"
proof (cases "transpose_to_dual c A b signs t")
  case (Inl e)
  then have "run = ([Print (Solution_Feasible sol), Call Transpose_To_Dual], Inl e)"
    by (simp add: run_def dual_stage_def bind_io_emit bind_io_call_lift_Inl)
  with Inl show ?thesis by (rule transform_raised)
next
  case (Inr d)
  obtain dual_c dual_A dual_b dual_signs where d: "d = (dual_c, dual_A, dual_b, dual_signs)"
    by (cases d) auto
  note tr = Inr [unfolded d]
  let ?pp = "print_problem dual_c dual_A dual_b dual_signs False"
  let ?call = "Linprog dual_c (np_neg2 dual_A) (np_neg dual_b)"
  show ?thesis
  proof (cases "snd ?pp")
    case (Inl e)
    have "run = (Print (Solution_Feasible sol) # Call Transpose_To_Dual # Call Print_Problem #
              fst ?pp, Inl e)"
      by (simp add: run_def dual_stage_def bind_io_emit tr bind_io_call_lift_Inr
          bind_io_call_Inl [OF Inl])
    with tr Inl show ?thesis by (rule print_raised)
  next
    case (Inr u)
    then have ok: "snd ?pp = Inr ()" by simp
    show ?thesis
    proof (cases "linprog dual_c (np_neg2 dual_A) (np_neg dual_b)")
      case (Inl e)
      have "run = (Print (Solution_Feasible sol) # Call Transpose_To_Dual # Call Print_Problem #
              fst ?pp @ [Call Solve_Dual, ?call], Inl e)"
        by (simp add: run_def dual_stage_def bind_io_emit tr bind_io_call_lift_Inr
            bind_io_call_Inr [OF ok] bind_io_call_Inl [of _ e] solve_dual_eq Inl)
      with tr ok Inl show ?thesis by (rule solver_raised)
    next
      case res: (Inr res)
      show ?thesis
      proof (cases "res_success res")
        case False
        have "run = (Print (Solution_Feasible sol) # Call Transpose_To_Dual # Call Print_Problem #
                fst ?pp @ [Call Solve_Dual, ?call, Print Dual_Not_Solved], Inr ())"
          using False
          by (simp add: run_def dual_stage_def bind_io_emit tr bind_io_call_lift_Inr
              bind_io_call_Inr [OF ok] bind_io_call_Inr [of _ None] solve_dual_eq res ret_def)
        with tr ok res False show ?thesis by (rule solver_failed)
      next
        case True
        have "run = (Print (Solution_Feasible sol) # Call Transpose_To_Dual # Call Print_Problem #
                fst ?pp @ [Call Solve_Dual, ?call] @
                fst (report_optimality np sol (res_x res) c b),
                snd (report_optimality np sol (res_x res) c b))"
          using True
          by (simp add: run_def dual_stage_def bind_io_emit tr bind_io_call_lift_Inr
              bind_io_call_Inr [OF ok] bind_io_call_Inr [of _ "Some (res_x res)"] solve_dual_eq
              res)
        with tr ok res True show ?thesis by (rule solved)
      qed
    qed
  qed
qed


subsection \<open>The three ways \<open>main\<close> can go\<close>

lemma main_invalid:
  "validate_inputs a = Inl e \<Longrightarrow> main np linprog a = ([Call Validate_Inputs], Inl e)"
  by (simp add: main_def bind_io_call_lift_Inl)

lemma main_cases:
  obtains
    (invalid) e where
      "validate_inputs a = Inl e"
      "main np linprog a = ([Call Validate_Inputs], Inl e)"
  | (infeasible) A_matrix where
      "validate_inputs a = Inr ()"
      "reshape_constraints (arg_A a) (nat (num_constraints a)) (nat (num_vars a)) = Inr A_matrix"
      "verify_feasibility np A_matrix (arg_b a) (constraint_signs a) (possible_sol a) = Inr False"
      "main np linprog a =
         (primal_prefix a A_matrix @ [Print (Solution_Infeasible (possible_sol a))], Inr ())"
  | (feasible) A_matrix where
      "validate_inputs a = Inr ()"
      "reshape_constraints (arg_A a) (nat (num_constraints a)) (nat (num_vars a)) = Inr A_matrix"
      "verify_feasibility np A_matrix (arg_b a) (constraint_signs a) (possible_sol a) = Inr True"
      "main np linprog a =
         (primal_prefix a A_matrix @
            fst (dual_stage np linprog (arg_c a) A_matrix (arg_b a) (constraint_signs a)
                   (arg_type a) (possible_sol a)),
          snd (dual_stage np linprog (arg_c a) A_matrix (arg_b a) (constraint_signs a)
                 (arg_type a) (possible_sol a)))"
proof (cases "validate_inputs a")
  case (Inl e)
  from Inl main_invalid [OF Inl] show ?thesis by (rule invalid)
next
  case (Inr u)
  then have V: "validate_inputs a = Inr ()" by simp
  from reshape_valid [OF V] obtain Am where
    R: "reshape_constraints (arg_A a) (nat (num_constraints a)) (nat (num_vars a)) = Inr Am"
    and dims: "dims_match Am (arg_b a) (constraint_signs a) (possible_sol a)"
    by blast
  have P: "snd (print_problem (arg_c a) Am (arg_b a) (constraint_signs a) True) = Inr ()"
    using dims by (intro print_problem_ok) (simp_all add: dims_match_def)
  from verify_feasibility_total [OF dims] obtain v where
    F: "verify_feasibility np Am (arg_b a) (constraint_signs a) (possible_sol a) = Inr v"
    by blast
  show ?thesis
  proof (cases v)
    case False
    have "main np linprog a =
        (primal_prefix a Am @ [Print (Solution_Infeasible (possible_sol a))], Inr ())"
      using False
      by (simp add: main_def V R F bind_io_call_lift_Inr bind_io_call_Inr [OF P] Let_def
          primal_prefix_def emit_def)
    with V R F [unfolded False] show ?thesis using False by (intro infeasible) simp_all
  next
    case True
    have "main np linprog a =
         (primal_prefix a Am @
            fst (dual_stage np linprog (arg_c a) Am (arg_b a) (constraint_signs a)
                   (arg_type a) (possible_sol a)),
          snd (dual_stage np linprog (arg_c a) Am (arg_b a) (constraint_signs a)
                 (arg_type a) (possible_sol a)))"
      using True
      by (simp add: main_def V R F bind_io_call_lift_Inr bind_io_call_Inr [OF P] Let_def
          primal_prefix_def)
    with V R F show ?thesis using True by (intro feasible) simp_all
  qed
qed


subsection \<open>What a run contains\<close>

lemma problem_lineD:
  assumes "list_all is_problem_line out" and "e \<in> set out"
  shows "is_problem_line e"
  using assms by (simp add: list_all_iff)

lemma problem_line_kind:
  "is_problem_line e \<Longrightarrow> \<not> is_linprog e \<and> \<not> is_report e"
  by (cases e rule: is_problem_line.cases) simp_all

lemma primal_prefix_set:
  assumes "e \<in> set (primal_prefix a Am)"
  shows "e \<in> {Call Validate_Inputs, Call Reshape_Constraints, Call Print_Problem,
               Call Verify_Feasibility} \<or> is_problem_line e"
  using assms problem_lineD [OF print_problem_lines]
  by (auto simp: primal_prefix_def)

lemma primal_prefix_free:
  "Call Transpose_To_Dual \<notin> set (primal_prefix a Am)"
  "Call Solve_Dual \<notin> set (primal_prefix a Am)"
  "Call Check_Optimality \<notin> set (primal_prefix a Am)"
  "Linprog c' A' b' \<notin> set (primal_prefix a Am)"
  "Print (Solution_Feasible s) \<notin> set (primal_prefix a Am)"
  "Print (Solution_Infeasible s) \<notin> set (primal_prefix a Am)"
  "Print Dual_Not_Solved \<notin> set (primal_prefix a Am)"
  "\<not> list_ex is_linprog (primal_prefix a Am)"
  "\<not> list_ex is_report (primal_prefix a Am)"
  using primal_prefix_set [of _ a Am] problem_line_kind by (fastforce simp: list_ex_iff)+

lemma problem_lines_free:
  assumes "list_all is_problem_line out"
  shows "Call s \<notin> set out" "Linprog c' A' b' \<notin> set out"
    "Print (Solution_Feasible sol) \<notin> set out" "Print (Solution_Infeasible sol) \<notin> set out"
    "Print Dual_Not_Solved \<notin> set out"
    "\<not> list_ex is_linprog out" "\<not> list_ex is_report out"
  using problem_lineD [OF assms] problem_line_kind by (fastforce simp: list_ex_iff)+

lemmas dual_lines_free = problem_lines_free [OF print_problem_lines]

lemma main_infeasible_run:
  assumes "validate_inputs a = Inr ()"
    and "reshape_constraints (arg_A a) (nat (num_constraints a)) (nat (num_vars a)) = Inr A_matrix"
    and "verify_feasibility np A_matrix (arg_b a) (constraint_signs a) (possible_sol a) = Inr False"
  shows "main np linprog a =
           (primal_prefix a A_matrix @ [Print (Solution_Infeasible (possible_sol a))], Inr ())"
  by (rule main_cases [where np = np and a = a and linprog = linprog]) (use assms in simp_all)


lemma report_optimality_free:
  "Linprog c' A' b' \<notin> set (fst (report_optimality np sol ds c b))"
  "Print Dual_Not_Solved \<notin> set (fst (report_optimality np sol ds c b))"
  "Print (Solution_Infeasible s) \<notin> set (fst (report_optimality np sol ds c b))"
  by (simp_all add: report_optimality_eq split: sum.splits)

lemma report_optimality_reported:
  assumes "list_ex is_report (fst (report_optimality np sol ds c b))"
  shows "snd (report_optimality np sol ds c b) = Inr () \<and>
         is_report (last (fst (report_optimality np sol ds c b))) \<and>
         Call Check_Optimality \<in> set (fst (report_optimality np sol ds c b)) \<and>
         fst (report_optimality np sol ds c b) \<noteq> []"
  using assms by (auto simp: report_optimality_eq split: sum.splits)

lemma dual_stage_solver_failed:
  fixes np linprog c A b signs t sol
  defines "run \<equiv> dual_stage np linprog c A b signs t sol"
  assumes "Linprog c' A' b' \<in> set (fst run)" and "linprog c' A' b' = Inr res'"
    and "\<not> res_success res'"
  shows "snd run = Inr () \<and> last (fst run) = Print Dual_Not_Solved \<and>
         Call Check_Optimality \<notin> set (fst run) \<and> \<not> list_ex is_report (fst run)"
proof (rule dual_stage_cases [where np = np and linprog = linprog and c = c and A = A and b = b
      and signs = signs and t = t and sol = sol], fold run_def)
  fix e assume "run = ([Print (Solution_Feasible sol), Call Transpose_To_Dual], Inl e)"
  with assms(2) show ?thesis by simp
next
  fix dual_c dual_A dual_b dual_signs e
  assume "run = (Print (Solution_Feasible sol) # Call Transpose_To_Dual # Call Print_Problem #
              fst (print_problem dual_c dual_A dual_b dual_signs False), Inl e)"
  with assms(2) show ?thesis by (simp add: dual_lines_free)
next
  fix dual_c dual_A dual_b dual_signs e
  assume raised: "linprog dual_c (np_neg2 dual_A) (np_neg dual_b) = Inl e"
    and "run = (Print (Solution_Feasible sol) # Call Transpose_To_Dual # Call Print_Problem #
              fst (print_problem dual_c dual_A dual_b dual_signs False) @
              [Call Solve_Dual, Linprog dual_c (np_neg2 dual_A) (np_neg dual_b)], Inl e)"
  with assms(2) have "c' = dual_c \<and> A' = np_neg2 dual_A \<and> b' = np_neg dual_b"
    by (simp add: dual_lines_free)
  with raised assms(3) show ?thesis by simp
next
  fix dual_c dual_A dual_b dual_signs and res :: optimize_result
  assume "run = (Print (Solution_Feasible sol) # Call Transpose_To_Dual # Call Print_Problem #
              fst (print_problem dual_c dual_A dual_b dual_signs False) @
              [Call Solve_Dual, Linprog dual_c (np_neg2 dual_A) (np_neg dual_b),
               Print Dual_Not_Solved], Inr ())"
  then show ?thesis by (simp add: dual_lines_free)
next
  fix dual_c dual_A dual_b dual_signs and res :: optimize_result
  assume res: "linprog dual_c (np_neg2 dual_A) (np_neg dual_b) = Inr res"
    and ok: "res_success res"
    and "run = (Print (Solution_Feasible sol) # Call Transpose_To_Dual # Call Print_Problem #
              fst (print_problem dual_c dual_A dual_b dual_signs False) @
              [Call Solve_Dual, Linprog dual_c (np_neg2 dual_A) (np_neg dual_b)] @
              fst (report_optimality np sol (res_x res) c b),
              snd (report_optimality np sol (res_x res) c b))"
  with assms(2) have "c' = dual_c \<and> A' = np_neg2 dual_A \<and> b' = np_neg dual_b"
    by (simp add: dual_lines_free report_optimality_free)
  with res ok assms(3,4) show ?thesis by simp
qed

lemma dual_stage_reported:
  fixes np linprog c A b signs t sol
  defines "run \<equiv> dual_stage np linprog c A b signs t sol"
  assumes "list_ex is_report (fst run)"
  shows "snd run = Inr () \<and> is_report (last (fst run)) \<and>
         Print (Solution_Feasible sol) \<in> set (fst run) \<and>
         Call Transpose_To_Dual \<in> set (fst run) \<and> Call Solve_Dual \<in> set (fst run) \<and>
         Call Check_Optimality \<in> set (fst run) \<and>
         Print Dual_Not_Solved \<notin> set (fst run) \<and>
         Print (Solution_Infeasible s) \<notin> set (fst run) \<and>
         (\<exists>c' A' b' res'. Linprog c' A' b' \<in> set (fst run) \<and> linprog c' A' b' = Inr res' \<and>
            res_success res')"
proof (rule dual_stage_cases [where np = np and linprog = linprog and c = c and A = A and b = b
      and signs = signs and t = t and sol = sol], fold run_def)
  fix e assume "run = ([Print (Solution_Feasible sol), Call Transpose_To_Dual], Inl e)"
  with assms(2) show ?thesis by simp
next
  fix dual_c dual_A dual_b dual_signs e
  assume "run = (Print (Solution_Feasible sol) # Call Transpose_To_Dual # Call Print_Problem #
              fst (print_problem dual_c dual_A dual_b dual_signs False), Inl e)"
  with assms(2) show ?thesis by (simp add: dual_lines_free)
next
  fix dual_c dual_A dual_b dual_signs e
  assume "run = (Print (Solution_Feasible sol) # Call Transpose_To_Dual # Call Print_Problem #
              fst (print_problem dual_c dual_A dual_b dual_signs False) @
              [Call Solve_Dual, Linprog dual_c (np_neg2 dual_A) (np_neg dual_b)], Inl e)"
  with assms(2) show ?thesis by (simp add: dual_lines_free)
next
  fix dual_c dual_A dual_b dual_signs
  assume "run = (Print (Solution_Feasible sol) # Call Transpose_To_Dual # Call Print_Problem #
              fst (print_problem dual_c dual_A dual_b dual_signs False) @
              [Call Solve_Dual, Linprog dual_c (np_neg2 dual_A) (np_neg dual_b),
               Print Dual_Not_Solved], Inr ())"
  with assms(2) show ?thesis by (simp add: dual_lines_free)
next
  fix dual_c dual_A dual_b dual_signs and res :: optimize_result
  let ?rep = "report_optimality np sol (res_x res) c b"
  assume res: "linprog dual_c (np_neg2 dual_A) (np_neg dual_b) = Inr res"
    and ok: "res_success res"
    and run: "run = (Print (Solution_Feasible sol) # Call Transpose_To_Dual # Call Print_Problem #
              fst (print_problem dual_c dual_A dual_b dual_signs False) @
              [Call Solve_Dual, Linprog dual_c (np_neg2 dual_A) (np_neg dual_b)] @
              fst ?rep, snd ?rep)"
  from assms(2) have "list_ex is_report (fst ?rep)"
    by (simp add: run dual_lines_free)
  from report_optimality_reported [OF this] res ok show ?thesis
    by (auto simp: run dual_lines_free report_optimality_free)
qed

lemma validate_inputs_Inl:
  assumes "int (length (arg_c a)) \<noteq> num_vars a \<or>
           int (length (arg_A a)) \<noteq> num_constraints a * num_vars a \<or>
           int (length (arg_b a)) \<noteq> num_constraints a \<or>
           int (length (constraint_signs a)) \<noteq> num_constraints a \<or>
           int (length (possible_sol a)) \<noteq> num_vars a"
  shows "\<exists>e. validate_inputs a = Inl (ValueError e) \<and> is_shape_error e"
  using assms by (auto simp: validate_inputs_def)

lemma main_solver_failed:
  fixes np linprog a
  defines "run \<equiv> main np linprog a"
  assumes "Linprog c' A' b' \<in> set (fst run)" and "linprog c' A' b' = Inr res'"
    and "\<not> res_success res'"
  shows "snd run = Inr () \<and> last (fst run) = Print Dual_Not_Solved \<and>
         \<not> performed Check_Optimality run \<and> \<not> reported run"
proof (rule main_cases [where np = np and a = a and linprog = linprog], fold run_def)
  fix e assume "run = ([Call Validate_Inputs], Inl e)"
  with assms(2) show ?thesis by simp
next
  fix Am
  assume "run = (primal_prefix a Am @ [Print (Solution_Infeasible (possible_sol a))], Inr ())"
  with assms(2) show ?thesis by (simp add: primal_prefix_free)
next
  fix Am
  let ?d = "dual_stage np linprog (arg_c a) Am (arg_b a) (constraint_signs a) (arg_type a)
              (possible_sol a)"
  assume run: "run = (primal_prefix a Am @ fst ?d, snd ?d)"
  with assms(2) have mem: "Linprog c' A' b' \<in> set (fst ?d)"
    by (simp add: primal_prefix_free)
  then have ne: "fst ?d \<noteq> []" by auto
  from dual_stage_solver_failed [OF mem assms(3,4)] ne show ?thesis
    by (simp add: run performed_def reported_def primal_prefix_free)
qed

lemma main_reported:
  fixes np linprog a
  defines "run \<equiv> main np linprog a"
  assumes "reported run"
  shows "snd run = Inr () \<and> is_report (last (fst run)) \<and>
         printed (Solution_Feasible (possible_sol a)) run \<and>
         \<not> printed (Solution_Infeasible (possible_sol a)) run \<and>
         \<not> printed Dual_Not_Solved run \<and>
         performed Validate_Inputs run \<and> performed Reshape_Constraints run \<and>
         performed Verify_Feasibility run \<and> performed Transpose_To_Dual run \<and>
         performed Solve_Dual run \<and> performed Check_Optimality run \<and>
         (\<exists>c' A' b' res'. Linprog c' A' b' \<in> set (fst run) \<and> linprog c' A' b' = Inr res' \<and>
            res_success res')"
proof (rule main_cases [where np = np and a = a and linprog = linprog], fold run_def)
  fix e assume "run = ([Call Validate_Inputs], Inl e)"
  with assms(2) show ?thesis by (simp add: reported_def)
next
  fix Am
  assume "run = (primal_prefix a Am @ [Print (Solution_Infeasible (possible_sol a))], Inr ())"
  with assms(2) show ?thesis by (simp add: reported_def primal_prefix_free)
next
  fix Am
  let ?d = "dual_stage np linprog (arg_c a) Am (arg_b a) (constraint_signs a) (arg_type a)
              (possible_sol a)"
  assume run: "run = (primal_prefix a Am @ fst ?d, snd ?d)"
  with assms(2) have rep: "list_ex is_report (fst ?d)"
    by (simp add: reported_def primal_prefix_free)
  then have ne: "fst ?d \<noteq> []" by auto
  have pre: "Call Validate_Inputs \<in> set (primal_prefix a Am)"
    "Call Reshape_Constraints \<in> set (primal_prefix a Am)"
    "Call Verify_Feasibility \<in> set (primal_prefix a Am)"
    by (simp_all add: primal_prefix_def)
  from dual_stage_reported [OF rep, where s = "possible_sol a"] ne pre show ?thesis
    by (auto simp: run performed_def printed_def primal_prefix_free)
qed

lemma problem_lines_count:
  assumes "list_all is_problem_line out"
  shows "count_list out (Call s) = 0" "filter is_linprog out = []"
proof -
  show "count_list out (Call s) = 0"
    using problem_lines_free(1) [OF assms] by simp
  show "filter is_linprog out = []"
    using problem_lineD [OF assms] problem_line_kind by (auto simp: filter_empty_conv)
qed

lemmas print_problem_count = problem_lines_count [OF print_problem_lines]

lemma primal_prefix_count:
  "count_list (primal_prefix a Am) (Call s) \<le> 1"
  "s \<in> {Transpose_To_Dual, Solve_Dual, Check_Optimality} \<Longrightarrow>
     count_list (primal_prefix a Am) (Call s) = 0"
  "filter is_linprog (primal_prefix a Am) = []"
  by (auto simp: primal_prefix_def print_problem_count)

lemma report_optimality_count:
  "count_list (fst (report_optimality np sol ds c b)) (Call s) \<le> (if s = Check_Optimality then 1 else 0)"
  "filter is_linprog (fst (report_optimality np sol ds c b)) = []"
  by (simp_all add: report_optimality_eq split: sum.splits)

lemma dual_stage_count:
  fixes np linprog c A b signs t sol
  defines "run \<equiv> dual_stage np linprog c A b signs t sol"
  shows "length (filter is_linprog (fst run)) \<le> 1 \<and>
         count_list (fst run) (Call s) \<le>
           (if s \<in> {Transpose_To_Dual, Print_Problem, Solve_Dual, Check_Optimality} then 1 else 0)"
proof (rule dual_stage_cases [where np = np and linprog = linprog and c = c and A = A and b = b
      and signs = signs and t = t and sol = sol], fold run_def)
  fix e assume "run = ([Print (Solution_Feasible sol), Call Transpose_To_Dual], Inl e)"
  then show ?thesis by simp
next
  fix dual_c dual_A dual_b dual_signs e
  assume "run = (Print (Solution_Feasible sol) # Call Transpose_To_Dual # Call Print_Problem #
              fst (print_problem dual_c dual_A dual_b dual_signs False), Inl e)"
  then show ?thesis by (simp add: print_problem_count)
next
  fix dual_c dual_A dual_b dual_signs e
  assume "run = (Print (Solution_Feasible sol) # Call Transpose_To_Dual # Call Print_Problem #
              fst (print_problem dual_c dual_A dual_b dual_signs False) @
              [Call Solve_Dual, Linprog dual_c (np_neg2 dual_A) (np_neg dual_b)], Inl e)"
  then show ?thesis by (simp add: print_problem_count)
next
  fix dual_c dual_A dual_b dual_signs
  assume "run = (Print (Solution_Feasible sol) # Call Transpose_To_Dual # Call Print_Problem #
              fst (print_problem dual_c dual_A dual_b dual_signs False) @
              [Call Solve_Dual, Linprog dual_c (np_neg2 dual_A) (np_neg dual_b),
               Print Dual_Not_Solved], Inr ())"
  then show ?thesis by (simp add: print_problem_count)
next
  fix dual_c dual_A dual_b dual_signs and res :: optimize_result
  let ?rep = "report_optimality np sol (res_x res) c b"
  assume run: "run = (Print (Solution_Feasible sol) # Call Transpose_To_Dual # Call Print_Problem #
              fst (print_problem dual_c dual_A dual_b dual_signs False) @
              [Call Solve_Dual, Linprog dual_c (np_neg2 dual_A) (np_neg dual_b)] @
              fst ?rep, snd ?rep)"
  show ?thesis
    using report_optimality_count(1) [of np sol "res_x res" c b s]
    by (auto simp: run print_problem_count report_optimality_count(2) split: if_splits)
qed

lemma main_no_retries:
  fixes np linprog a
  defines "run \<equiv> main np linprog a"
  shows "length (filter is_linprog (fst run)) \<le> 1 \<and>
         (s \<noteq> Print_Problem \<longrightarrow> count_list (fst run) (Call s) \<le> 1)"
proof (rule main_cases [where np = np and a = a and linprog = linprog], fold run_def)
  fix e assume "run = ([Call Validate_Inputs], Inl e)"
  then show ?thesis by simp
next
  fix Am
  assume "run = (primal_prefix a Am @ [Print (Solution_Infeasible (possible_sol a))], Inr ())"
  with primal_prefix_count(1) [of a Am s] show ?thesis
    by (simp add: primal_prefix_count(3))
next
  fix Am
  let ?d = "dual_stage np linprog (arg_c a) Am (arg_b a) (constraint_signs a) (arg_type a)
              (possible_sol a)"
  assume run: "run = (primal_prefix a Am @ fst ?d, snd ?d)"
  show ?thesis
  proof (cases "s \<in> {Transpose_To_Dual, Solve_Dual, Check_Optimality}")
    case True
    with dual_stage_count [of np linprog "arg_c a" Am "arg_b a" "constraint_signs a" "arg_type a"
        "possible_sol a" s] primal_prefix_count(2) [OF True, of a Am]
    show ?thesis by (auto simp: run primal_prefix_count(3) split: if_splits)
  next
    case False
    with dual_stage_count [of np linprog "arg_c a" Am "arg_b a" "constraint_signs a" "arg_type a"
        "possible_sol a" s] primal_prefix_count(1) [of a Am s]
    show ?thesis by (auto simp: run primal_prefix_count(3) split: if_splits)
  qed
qed

subsection \<open>The scenarios, run\<close>

lemmas run_defs =
  main_def dual_stage_def report_optimality_def solve_dual_def print_problem_def
  validate_inputs_def reshape_constraints_def verify_feasibility_def transpose_to_dual_def
  check_optimality_def call_def lift_def emit_def ret_def np_row_def np_get_def np_dot_def
  sign_and_def np_T_def np_neg2_def np_neg_def np_isclose_def difference_def tolerance_def
  fgt_def fle_def fge_def exact_numpy_def xdot_def xsub_def Let_def upt_rec

lemma main_scenario:
  "main exact_numpy ex_linprog ex_args =
     ([Call Validate_Inputs, Call Reshape_Constraints, Call Print_Problem,
       Print (Problem_Title True), Print (Problem_Row (map Fin [1, 0]) ''<='' (Fin 4)),
       Print (Problem_Row (map Fin [0, 2]) ''<='' (Fin 12)), Print (Problem_Row (map Fin [3, 2]) ''<='' (Fin 18)),
       Print (Problem_Objective True (map Fin [3, 5])), Call Verify_Feasibility,
       Print (Solution_Feasible (map Fin [2, 6])), Call Transpose_To_Dual, Call Print_Problem,
       Print (Problem_Title False), Print (Problem_Row (map Fin [1, 0, 3]) ''>='' (Fin 3)),
       Print (Problem_Row (map Fin [0, 2, 2]) ''>='' (Fin 5)), Print (Problem_Objective False (map Fin [4, 12, 18])),
       Call Solve_Dual,
       Linprog ex_b ex_A_ub ex_b_ub,
       Print (Dual_Solution (map Fin [0, 3 / 2, 1])), Call Check_Optimality, Print (Optimal (Fin 36))],
      Inr ())"
  by (simp add: run_defs ex_args_def ex_linprog_def ex_b_def ex_A_ub_def ex_b_ub_def)

lemma main_scenario_solver_fails:
  "main exact_numpy failing_linprog ex_args =
     ([Call Validate_Inputs, Call Reshape_Constraints, Call Print_Problem,
       Print (Problem_Title True), Print (Problem_Row (map Fin [1, 0]) ''<='' (Fin 4)),
       Print (Problem_Row (map Fin [0, 2]) ''<='' (Fin 12)), Print (Problem_Row (map Fin [3, 2]) ''<='' (Fin 18)),
       Print (Problem_Objective True (map Fin [3, 5])), Call Verify_Feasibility,
       Print (Solution_Feasible (map Fin [2, 6])), Call Transpose_To_Dual, Call Print_Problem,
       Print (Problem_Title False), Print (Problem_Row (map Fin [1, 0, 3]) ''>='' (Fin 3)),
       Print (Problem_Row (map Fin [0, 2, 2]) ''>='' (Fin 5)), Print (Problem_Objective False (map Fin [4, 12, 18])),
       Call Solve_Dual,
       Linprog ex_b ex_A_ub ex_b_ub,
       Print Dual_Not_Solved],
      Inr ())"
  by (simp add: run_defs ex_args_def failing_linprog_def ex_b_def ex_A_ub_def ex_b_ub_def)

text \<open>When the solver raises, the run ends there with its exception.\<close>

lemma main_scenario_solver_raises:
  "main exact_numpy raising_linprog ex_args =
     ([Call Validate_Inputs, Call Reshape_Constraints, Call Print_Problem,
       Print (Problem_Title True), Print (Problem_Row (map Fin [1, 0]) ''<='' (Fin 4)),
       Print (Problem_Row (map Fin [0, 2]) ''<='' (Fin 12)),
       Print (Problem_Row (map Fin [3, 2]) ''<='' (Fin 18)),
       Print (Problem_Objective True (map Fin [3, 5])), Call Verify_Feasibility,
       Print (Solution_Feasible (map Fin [2, 6])), Call Transpose_To_Dual, Call Print_Problem,
       Print (Problem_Title False), Print (Problem_Row (map Fin [1, 0, 3]) ''>='' (Fin 3)),
       Print (Problem_Row (map Fin [0, 2, 2]) ''>='' (Fin 5)),
       Print (Problem_Objective False (map Fin [4, 12, 18])),
       Call Solve_Dual, Linprog ex_b ex_A_ub ex_b_ub],
      Inl SolverError)"
  by (simp add: run_defs ex_args_def raising_linprog_def ex_b_def ex_A_ub_def ex_b_ub_def)

lemma main_scenario_infeasible:
  "main exact_numpy linprog ex_args_infeasible =
     ([Call Validate_Inputs, Call Reshape_Constraints, Call Print_Problem,
       Print (Problem_Title True), Print (Problem_Row (map Fin [1, 0]) ''<='' (Fin 4)),
       Print (Problem_Row (map Fin [0, 2]) ''<='' (Fin 12)), Print (Problem_Row (map Fin [3, 2]) ''<='' (Fin 18)),
       Print (Problem_Objective True (map Fin [3, 5])), Call Verify_Feasibility,
       Print (Solution_Infeasible (map Fin [5, 5]))],
      Inr ())"
  by (simp add: run_defs ex_args_infeasible_def ex_args_def)

text \<open>
  With more variables than constraints the program stops with an IndexError while it
  prints the dual problem, before the solver is called.
\<close>

lemma main_scenario_wide:
  "main exact_numpy linprog ex_args_wide =
     ([Call Validate_Inputs, Call Reshape_Constraints, Call Print_Problem,
       Print (Problem_Title True), Print (Problem_Row (map Fin [1, 1]) ''<='' (Fin 1)),
       Print (Problem_Objective True (map Fin [1, 1])), Call Verify_Feasibility,
       Print (Solution_Feasible (map Fin [0, 0])), Call Transpose_To_Dual, Call Print_Problem,
       Print (Problem_Title False), Print (Problem_Row (map Fin [1]) ''>='' (Fin 1))],
      Inl IndexError)"
  by (simp add: run_defs ex_args_wide_def)

subsection \<open>Shape errors\<close>

text \<open>
  Claim C6. When a declared dimension is violated (the objective has not \<open>N\<close> entries,
  the flat constraint coefficients have not \<open>M \<cdot> N\<close>, the right-hand side or the relation
  symbols have not \<open>M\<close>, or the candidate point has not \<open>N\<close>), \<open>validate_inputs\<close> raises
  a shape error and the run consists of that call alone: no matrix is built, nothing is
  printed, and neither the feasibility check, the dual transform, the solver nor the
  optimality check is called.
\<close>

theorem main_shape_error:
  assumes "int (length (arg_c a)) \<noteq> num_vars a \<or>
           int (length (arg_A a)) \<noteq> num_constraints a * num_vars a \<or>
           int (length (arg_b a)) \<noteq> num_constraints a \<or>
           int (length (constraint_signs a)) \<noteq> num_constraints a \<or>
           int (length (possible_sol a)) \<noteq> num_vars a"
  shows "\<exists>e. is_shape_error e \<and>
           validate_inputs a = Inl (ValueError e) \<and>
           main np linprog a = ([Call Validate_Inputs], Inl (ValueError e)) \<and>
           \<not> performed Reshape_Constraints (main np linprog a) \<and>
           \<not> performed Print_Problem (main np linprog a) \<and>
           \<not> performed Verify_Feasibility (main np linprog a) \<and>
           \<not> performed Transpose_To_Dual (main np linprog a) \<and>
           \<not> performed Solve_Dual (main np linprog a) \<and>
           \<not> solver_called (main np linprog a) \<and>
           \<not> performed Check_Optimality (main np linprog a)"
proof -
  from validate_inputs_Inl [OF assms] obtain e where
    e: "validate_inputs a = Inl (ValueError e)" "is_shape_error e"
    by blast
  from main_invalid [OF e(1)] e show ?thesis
    by (simp add: performed_def solver_called_def)
qed

theorem main_shape_error_witness:
  "int (length (arg_c (ex_args\<lparr>arg_c := [Fin 3]\<rparr>))) \<noteq> num_vars (ex_args\<lparr>arg_c := [Fin 3]\<rparr>) \<and>
   main exact_numpy ex_linprog (ex_args\<lparr>arg_c := [Fin 3]\<rparr>) = ([Call Validate_Inputs], Inl (ValueError (Bad_c 2))) \<and>
   int (length (arg_A (ex_args\<lparr>arg_A := map Fin [1, 0, 0]\<rparr>))) \<noteq>
     num_constraints (ex_args\<lparr>arg_A := map Fin [1, 0, 0]\<rparr>) * num_vars (ex_args\<lparr>arg_A := map Fin [1, 0, 0]\<rparr>) \<and>
   main exact_numpy ex_linprog (ex_args\<lparr>arg_A := map Fin [1, 0, 0]\<rparr>) = ([Call Validate_Inputs], Inl (ValueError (Bad_A 6))) \<and>
   int (length (possible_sol (ex_args\<lparr>possible_sol := map Fin [2, 6, 0]\<rparr>))) \<noteq>
     num_vars (ex_args\<lparr>possible_sol := map Fin [2, 6, 0]\<rparr>) \<and>
   main exact_numpy ex_linprog (ex_args\<lparr>possible_sol := map Fin [2, 6, 0]\<rparr>) =
     ([Call Validate_Inputs], Inl (ValueError (Bad_possible_sol 2)))"
proof -
  let ?a1 = "ex_args\<lparr>arg_c := [Fin 3]\<rparr>" and ?a2 = "ex_args\<lparr>arg_A := map Fin [1, 0, 0]\<rparr>"
    and ?a3 = "ex_args\<lparr>possible_sol := map Fin [2, 6, 0]\<rparr>"
  have h1: "int (length (arg_c ?a1)) \<noteq> num_vars ?a1"
    and h2: "int (length (arg_A ?a2)) \<noteq> num_constraints ?a2 * num_vars ?a2"
    and h3: "int (length (possible_sol ?a3)) \<noteq> num_vars ?a3"
    by (simp_all add: ex_args_def)
  have v1: "validate_inputs ?a1 = Inl (ValueError (Bad_c 2))"
    and v2: "validate_inputs ?a2 = Inl (ValueError (Bad_A 6))"
    and v3: "validate_inputs ?a3 = Inl (ValueError (Bad_possible_sol 2))"
    by (simp_all add: validate_inputs_def ex_args_def)
  have r1: "main exact_numpy ex_linprog ?a1 = ([Call Validate_Inputs], Inl (ValueError (Bad_c 2)))"
    using main_shape_error [where a = ?a1 and linprog = ex_linprog and np = exact_numpy] h1 v1 by auto
  have r2: "main exact_numpy ex_linprog ?a2 = ([Call Validate_Inputs], Inl (ValueError (Bad_A 6)))"
    using main_shape_error [where a = ?a2 and linprog = ex_linprog and np = exact_numpy] h2 v2 by auto
  have r3: "main exact_numpy ex_linprog ?a3 = ([Call Validate_Inputs], Inl (ValueError (Bad_possible_sol 2)))"
    using main_shape_error [where a = ?a3 and linprog = ex_linprog and np = exact_numpy] h3 v3 by auto
  from h1 r1 h2 r2 h3 r3 show ?thesis
    by blast
qed

subsection \<open>Short circuits\<close>

text \<open>
  Claim C7. The pipeline short-circuits, one way and without retries. In a run whose
  candidate point is infeasible the dual transform, the solver and the optimality check
  are not called, and the run ends normally with the infeasibility message and no report.
  In a run whose solver call returns and reports failure the optimality check is not
  called, and the run ends normally with the failure message and no report. A run that
  prints an
  optimality report went through every stage: the point was reported feasible, the solver
  was called and reported success, the check was called, neither short-circuit message was
  printed, and the report is the last line. In every run the solver is called at most
  once, and every stage but printing at most once.
\<close>

theorem main_short_circuits:
  assumes "run = main np linprog a"
  shows "(validate_inputs a = Inr () \<and>
          reshape_constraints (arg_A a) (nat (num_constraints a)) (nat (num_vars a)) = Inr A_matrix \<and>
          verify_feasibility np A_matrix (arg_b a) (constraint_signs a) (possible_sol a) = Inr False \<longrightarrow>
            snd run = Inr () \<and> last (fst run) = Print (Solution_Infeasible (possible_sol a)) \<and>
            \<not> performed Transpose_To_Dual run \<and> \<not> performed Solve_Dual run \<and>
            \<not> solver_called run \<and> \<not> performed Check_Optimality run \<and> \<not> reported run) \<and>
         (Linprog c' A' b' \<in> set (fst run) \<and> linprog c' A' b' = Inr res' \<and>
          \<not> res_success res' \<longrightarrow>
            snd run = Inr () \<and> last (fst run) = Print Dual_Not_Solved \<and>
            \<not> performed Check_Optimality run \<and> \<not> reported run) \<and>
         (reported run \<longrightarrow>
            snd run = Inr () \<and> is_report (last (fst run)) \<and>
            printed (Solution_Feasible (possible_sol a)) run \<and>
            \<not> printed (Solution_Infeasible (possible_sol a)) run \<and>
            \<not> printed Dual_Not_Solved run \<and>
            performed Validate_Inputs run \<and> performed Reshape_Constraints run \<and>
            performed Verify_Feasibility run \<and> performed Transpose_To_Dual run \<and>
            performed Solve_Dual run \<and> performed Check_Optimality run \<and>
            (\<exists>c' A' b' res'. Linprog c' A' b' \<in> set (fst run) \<and>
               linprog c' A' b' = Inr res' \<and> res_success res')) \<and>
         length (filter is_linprog (fst run)) \<le> 1 \<and>
         (\<forall>s. s \<noteq> Print_Problem \<longrightarrow> count_list (fst run) (Call s) \<le> 1)"
proof -
  have infeasible: "snd run = Inr () \<and> last (fst run) = Print (Solution_Infeasible (possible_sol a)) \<and>
      \<not> performed Transpose_To_Dual run \<and> \<not> performed Solve_Dual run \<and>
      \<not> solver_called run \<and> \<not> performed Check_Optimality run \<and> \<not> reported run"
    if "validate_inputs a = Inr ()"
      and "reshape_constraints (arg_A a) (nat (num_constraints a)) (nat (num_vars a)) = Inr A_matrix"
      and "verify_feasibility np A_matrix (arg_b a) (constraint_signs a) (possible_sol a) = Inr False"
    using main_infeasible_run [OF that, of linprog]
    by (simp add: assms performed_def solver_called_def reported_def primal_prefix_free)
  have failed: "snd run = Inr () \<and> last (fst run) = Print Dual_Not_Solved \<and>
      \<not> performed Check_Optimality run \<and> \<not> reported run"
    if "Linprog c' A' b' \<in> set (fst run)" and "linprog c' A' b' = Inr res'"
      and "\<not> res_success res'"
    using main_solver_failed [where c' = c' and A' = A' and b' = b' and linprog = linprog and a = a
        and np = np and res' = res'] that by (simp add: assms)
  have success: "snd run = Inr () \<and> is_report (last (fst run)) \<and>
      printed (Solution_Feasible (possible_sol a)) run \<and>
      \<not> printed (Solution_Infeasible (possible_sol a)) run \<and>
      \<not> printed Dual_Not_Solved run \<and>
      performed Validate_Inputs run \<and> performed Reshape_Constraints run \<and>
      performed Verify_Feasibility run \<and> performed Transpose_To_Dual run \<and>
      performed Solve_Dual run \<and> performed Check_Optimality run \<and>
      (\<exists>c' A' b' res'. Linprog c' A' b' \<in> set (fst run) \<and>
         linprog c' A' b' = Inr res' \<and> res_success res')"
    if "reported run"
    using main_reported [of np linprog a] that by (simp add: assms)
  have once: "length (filter is_linprog (fst run)) \<le> 1"
    "\<forall>s. s \<noteq> Print_Problem \<longrightarrow> count_list (fst run) (Call s) \<le> 1"
    using main_no_retries [of np linprog a] by (simp_all add: assms)
  from infeasible failed success once show ?thesis
    by blast
qed

theorem main_short_circuits_witness:
  "validate_inputs ex_args_infeasible = Inr () \<and>
   reshape_constraints (arg_A ex_args_infeasible) (nat (num_constraints ex_args_infeasible))
     (nat (num_vars ex_args_infeasible)) = Inr ex_A \<and>
   verify_feasibility exact_numpy ex_A (arg_b ex_args_infeasible) (constraint_signs ex_args_infeasible)
     (possible_sol ex_args_infeasible) = Inr False \<and>
   last (fst (main exact_numpy ex_linprog ex_args_infeasible)) = Print (Solution_Infeasible (map Fin [5, 5])) \<and>
   \<not> performed Transpose_To_Dual (main exact_numpy ex_linprog ex_args_infeasible) \<and>
   \<not> solver_called (main exact_numpy ex_linprog ex_args_infeasible) \<and>
   \<not> reported (main exact_numpy ex_linprog ex_args_infeasible) \<and>
   Linprog ex_b ex_A_ub ex_b_ub
     \<in> set (fst (main exact_numpy failing_linprog ex_args)) \<and>
   failing_linprog ex_b ex_A_ub ex_b_ub = Inr \<lparr>res_success = False, res_x = []\<rparr> \<and>
   last (fst (main exact_numpy failing_linprog ex_args)) = Print Dual_Not_Solved \<and>
   \<not> performed Check_Optimality (main exact_numpy failing_linprog ex_args) \<and>
   \<not> reported (main exact_numpy failing_linprog ex_args) \<and>
   reported (main exact_numpy ex_linprog ex_args) \<and>
   snd (main exact_numpy ex_linprog ex_args) = Inr () \<and>
   performed Check_Optimality (main exact_numpy ex_linprog ex_args) \<and>
   \<not> printed Dual_Not_Solved (main exact_numpy ex_linprog ex_args)"
proof -
  have a1: "validate_inputs ex_args_infeasible = Inr ()"
    by (simp add: validate_inputs_def ex_args_infeasible_def ex_args_def)
  have a2: "reshape_constraints (arg_A ex_args_infeasible) (nat (num_constraints ex_args_infeasible))
      (nat (num_vars ex_args_infeasible)) = Inr ex_A"
    by (simp add: reshape_constraints_def ex_args_infeasible_def ex_args_def ex_A_def upt_rec)
  have a3: "verify_feasibility exact_numpy ex_A (arg_b ex_args_infeasible) (constraint_signs ex_args_infeasible)
      (possible_sol ex_args_infeasible) = Inr False"
    using verify_feasibility_scenarios(2)
    by (simp add: ex_args_infeasible_def ex_args_def ex_b_def ex_signs_def)
  have sol: "possible_sol ex_args_infeasible = map Fin [5, 5]"
    by (simp add: ex_args_infeasible_def)
  have a: "last (fst (main exact_numpy ex_linprog ex_args_infeasible)) = Print (Solution_Infeasible (map Fin [5, 5])) \<and>
      \<not> performed Transpose_To_Dual (main exact_numpy ex_linprog ex_args_infeasible) \<and>
      \<not> solver_called (main exact_numpy ex_linprog ex_args_infeasible) \<and>
      \<not> reported (main exact_numpy ex_linprog ex_args_infeasible)"
    using main_short_circuits [OF refl, where a = ex_args_infeasible and A_matrix = ex_A
        and linprog = ex_linprog and np = exact_numpy] a1 a2 a3
    unfolding sol by blast
  have b1: "Linprog ex_b ex_A_ub ex_b_ub \<in> set (fst (main exact_numpy failing_linprog ex_args))"
    by (simp add: main_scenario_solver_fails)
  have b2: "failing_linprog ex_b ex_A_ub ex_b_ub = Inr \<lparr>res_success = False, res_x = []\<rparr>"
    by (simp add: failing_linprog_def)
  have b3: "\<not> res_success \<lparr>res_success = False, res_x = []\<rparr>"
    by simp
  have b: "last (fst (main exact_numpy failing_linprog ex_args)) = Print Dual_Not_Solved \<and>
      \<not> performed Check_Optimality (main exact_numpy failing_linprog ex_args) \<and>
      \<not> reported (main exact_numpy failing_linprog ex_args)"
    using main_short_circuits [OF refl, where a = ex_args and linprog = failing_linprog
        and np = exact_numpy and c' = ex_b and A' = ex_A_ub and b' = ex_b_ub
        and res' = "\<lparr>res_success = False, res_x = []\<rparr>"]
      b1 b2 b3 by blast
  have c1: "reported (main exact_numpy ex_linprog ex_args)"
    by (simp add: main_scenario reported_def)
  have c: "snd (main exact_numpy ex_linprog ex_args) = Inr () \<and>
      performed Check_Optimality (main exact_numpy ex_linprog ex_args) \<and>
      \<not> printed Dual_Not_Solved (main exact_numpy ex_linprog ex_args)"
    using main_short_circuits [OF refl, where a = ex_args and linprog = ex_linprog
        and np = exact_numpy] c1 by blast
  from a1 a2 a3 a b1 b2 b c1 c show ?thesis
    by blast
qed

subsection \<open>Invalid relation symbols in a run\<close>

text \<open>
  Claim C3 says that a relation symbol outside \<open>\<le>\<close>, \<open>=\<close>, \<open>\<ge>\<close> makes the feasibility check
  raise, before the dual transform runs. The code does not: on the scenario with \<open>!=\<close>
  as second symbol the feasibility check returns true, the point is printed as feasible,
  and the exception comes from the dual transform; with the infeasible point \<open>(5, 5)\<close>
  the run ends normally with the infeasibility message and the symbol is never reported.
  With \<open>!=\<close> as every symbol no number is compared at all: whatever numpy and the solver
  compute, the check returns true and the exception comes from the dual transform.
\<close>

theorem invalid_sign_passes_feasibility:
  "verify_feasibility exact_numpy ex_A ex_b [''<='', ''!='', ''<=''] ex_sol = Inr True \<and>
   main exact_numpy ex_linprog ex_args_bad_sign =
     ([Call Validate_Inputs, Call Reshape_Constraints, Call Print_Problem,
       Print (Problem_Title True), Print (Problem_Row (map Fin [1, 0]) ''<='' (Fin 4)),
       Print (Problem_Row (map Fin [0, 2]) ''!='' (Fin 12)),
       Print (Problem_Row (map Fin [3, 2]) ''<='' (Fin 18)),
       Print (Problem_Objective True (map Fin [3, 5])), Call Verify_Feasibility,
       Print (Solution_Feasible (map Fin [2, 6])), Call Transpose_To_Dual],
      Inl (ValueError (Invalid_sign ''!=''))) \<and>
   main exact_numpy ex_linprog (ex_args_bad_sign\<lparr>possible_sol := map Fin [5, 5]\<rparr>) =
     ([Call Validate_Inputs, Call Reshape_Constraints, Call Print_Problem,
       Print (Problem_Title True), Print (Problem_Row (map Fin [1, 0]) ''<='' (Fin 4)),
       Print (Problem_Row (map Fin [0, 2]) ''!='' (Fin 12)),
       Print (Problem_Row (map Fin [3, 2]) ''<='' (Fin 18)),
       Print (Problem_Objective True (map Fin [3, 5])), Call Verify_Feasibility,
       Print (Solution_Infeasible (map Fin [5, 5]))],
      Inr ()) \<and>
   verify_feasibility np ex_A ex_b [''!='', ''!='', ''!=''] ex_sol = Inr True \<and>
   main np linprog (ex_args\<lparr>constraint_signs := [''!='', ''!='', ''!='']\<rparr>) =
     ([Call Validate_Inputs, Call Reshape_Constraints, Call Print_Problem,
       Print (Problem_Title True), Print (Problem_Row (map Fin [1, 0]) ''!='' (Fin 4)),
       Print (Problem_Row (map Fin [0, 2]) ''!='' (Fin 12)),
       Print (Problem_Row (map Fin [3, 2]) ''!='' (Fin 18)),
       Print (Problem_Objective True (map Fin [3, 5])), Call Verify_Feasibility,
       Print (Solution_Feasible (map Fin [2, 6])), Call Transpose_To_Dual],
      Inl (ValueError (Invalid_sign ''!='')))"
proof -
  have "verify_feasibility exact_numpy ex_A ex_b [''<='', ''!='', ''<=''] ex_sol = Inr True"
    by (simp add: run_defs ex_A_def ex_b_def ex_sol_def)
  moreover have "main exact_numpy ex_linprog ex_args_bad_sign =
     ([Call Validate_Inputs, Call Reshape_Constraints, Call Print_Problem,
       Print (Problem_Title True), Print (Problem_Row (map Fin [1, 0]) ''<='' (Fin 4)),
       Print (Problem_Row (map Fin [0, 2]) ''!='' (Fin 12)),
       Print (Problem_Row (map Fin [3, 2]) ''<='' (Fin 18)),
       Print (Problem_Objective True (map Fin [3, 5])), Call Verify_Feasibility,
       Print (Solution_Feasible (map Fin [2, 6])), Call Transpose_To_Dual],
      Inl (ValueError (Invalid_sign ''!='')))"
    by (simp add: run_defs ex_args_bad_sign_def ex_args_def)
  moreover have "main exact_numpy ex_linprog (ex_args_bad_sign\<lparr>possible_sol := map Fin [5, 5]\<rparr>) =
     ([Call Validate_Inputs, Call Reshape_Constraints, Call Print_Problem,
       Print (Problem_Title True), Print (Problem_Row (map Fin [1, 0]) ''<='' (Fin 4)),
       Print (Problem_Row (map Fin [0, 2]) ''!='' (Fin 12)),
       Print (Problem_Row (map Fin [3, 2]) ''<='' (Fin 18)),
       Print (Problem_Objective True (map Fin [3, 5])), Call Verify_Feasibility,
       Print (Solution_Infeasible (map Fin [5, 5]))],
      Inr ())"
    by (simp add: run_defs ex_args_bad_sign_def ex_args_def)
  moreover have "verify_feasibility np ex_A ex_b [''!='', ''!='', ''!=''] ex_sol = Inr True"
    by (simp add: verify_feasibility_def np_row_def np_dot_def sign_and_def ex_A_def ex_sol_def)
  moreover have "main np linprog (ex_args\<lparr>constraint_signs := [''!='', ''!='', ''!='']\<rparr>) =
     ([Call Validate_Inputs, Call Reshape_Constraints, Call Print_Problem,
       Print (Problem_Title True), Print (Problem_Row (map Fin [1, 0]) ''!='' (Fin 4)),
       Print (Problem_Row (map Fin [0, 2]) ''!='' (Fin 12)),
       Print (Problem_Row (map Fin [3, 2]) ''!='' (Fin 18)),
       Print (Problem_Objective True (map Fin [3, 5])), Call Verify_Feasibility,
       Print (Solution_Feasible (map Fin [2, 6])), Call Transpose_To_Dual],
      Inl (ValueError (Invalid_sign ''!='')))"
    by (simp add: main_def dual_stage_def print_problem_def validate_inputs_def
        reshape_constraints_def verify_feasibility_def transpose_to_dual_def call_def lift_def
        emit_def ret_def np_row_def np_get_def np_dot_def sign_and_def Let_def upt_rec
        ex_args_def)
  ultimately show ?thesis
    by blast
qed


end
